theory Spec2Isabelle
  imports Complex_Main
begin

section \<open>JavaScript and Kotlin values\<close>

text \<open>
  A JavaScript (and a Kotlin) string is a sequence of UTF-16 code units; a code unit is
  modelled by its number. String literals of the sources are written with \<open>lit\<close>.
\<close>

type_synonym jsstring = "nat list"

definition lit :: "string \<Rightarrow> jsstring" where
  "lit s = map of_char s"

text \<open>
  \<open>String.prototype.trim\<close> removes the ECMAScript WhiteSpace and LineTerminator code
  units from both ends: TAB, LF, VT, FF, CR, SP, NBSP, U+1680, U+2000..U+200A, U+2028,
  U+2029, U+202F, U+205F, U+3000 and U+FEFF.
\<close>

definition isWhiteSpace :: "nat \<Rightarrow> bool" where
  "isWhiteSpace c =
     (c \<in> {9, 10, 11, 12, 13, 32, 160, 5760, 8232, 8233, 8239, 8287, 12288, 65279}
      \<or> (8192 \<le> c \<and> c \<le> 8202))"

definition trim :: "jsstring \<Rightarrow> jsstring" where
  "trim s = rev (dropWhile isWhiteSpace (rev (dropWhile isWhiteSpace s)))"

text \<open>A string is truthy when it is not empty; \<open>null\<close> and \<open>undefined\<close> are \<open>None\<close>.\<close>

definition truthy :: "jsstring option \<Rightarrow> bool" where
  "truthy v = (case v of None \<Rightarrow> False | Some s \<Rightarrow> s \<noteq> [])"

text \<open>
  \<open>Number.prototype.toString\<close> on an integral number (the values of \<open>Date.now()\<close> are
  far below 1e21, where the decimal notation without exponent is used).
\<close>

fun digits :: "nat \<Rightarrow> jsstring" where
  "digits n = (if n < 10 then [48 + n] else digits (n div 10) @ [48 + n mod 10])"

declare digits.simps [simp del]

definition toString :: "int \<Rightarrow> jsstring" where
  "toString i = (if i < 0 then 45 # digits (nat (- i)) else digits (nat i))"

text \<open>
  The numeric value a decimal string stands for; it is used to state that ids increase.
\<close>

definition undec :: "jsstring \<Rightarrow> nat" where
  "undec ds = foldl (\<lambda>a d. 10 * a + (d - 48)) 0 ds"

definition numberOf :: "jsstring \<Rightarrow> int" where
  "numberOf s = (case s of [] \<Rightarrow> 0
                 | c # r \<Rightarrow> if c = 45 then - int (undec r) else int (undec s))"

text \<open>
  A JavaScript number: a finite value, the two infinities or NaN. A finite value is a
  double, given by the real number it stands for; the two zeros are not told apart.
  Every arithmetic operation rounds its exact result to the nearest double, ties to the
  even significand (IEEE 754 binary64: 53 significant bits, exponents from -1022 to
  1023, subnormal numbers below, infinity from 2^1024 on).
\<close>

datatype jsnum = Num real | Infinity | NegInfinity | NaN

text \<open>
  \<open>ilog2 n\<close> is the integer part of the binary logarithm of \<open>n\<close>, \<open>clog2 n\<close> the least \<open>k\<close>
  with \<open>n \<le> 2^k\<close>, \<open>pow2 k\<close> the power \<open>2^k\<close> for an integer \<open>k\<close>, and \<open>exponent_of x\<close> the
  exponent \<open>e\<close> with \<open>2^e \<le> x < 2^(e+1)\<close> of a positive \<open>x\<close>.
\<close>

fun ilog2 :: "nat \<Rightarrow> nat" where
  "ilog2 n = (if n < 2 then 0 else Suc (ilog2 (n div 2)))"

declare ilog2.simps [simp del]

definition clog2 :: "nat \<Rightarrow> nat" where
  "clog2 n = (if n \<le> 1 then 0 else Suc (ilog2 (n - 1)))"

definition pow2 :: "int \<Rightarrow> real" where
  "pow2 k = (if 0 \<le> k then 2 ^ nat k else 1 / 2 ^ nat (- k))"

definition exponent_of :: "real \<Rightarrow> int" where
  "exponent_of x =
     (if 1 \<le> x then int (ilog2 (nat \<lfloor>x\<rfloor>)) else - int (clog2 (nat \<lceil>1 / x\<rceil>)))"

text \<open>The nearest integer, a tie going to the even one.\<close>

definition round_half_even :: "real \<Rightarrow> int" where
  "round_half_even t =
     (let f = \<lfloor>t\<rfloor>; d = t - of_int f
      in if d < 1 / 2 then f else if 1 / 2 < d then f + 1 else if even f then f else f + 1)"

text \<open>
  The double nearest to a positive \<open>x\<close>: a multiple of the spacing \<open>2^(e - 52)\<close> of the
  doubles around \<open>x\<close>, where the exponent \<open>e\<close> is not below -1022.
\<close>

definition round_pos :: "real \<Rightarrow> jsnum" where
  "round_pos x =
     (let e = max (exponent_of x) (- 1022);
          q = pow2 (e - 52);
          y = of_int (round_half_even (x / q)) * q
      in if pow2 1024 \<le> y then Infinity else Num y)"

definition js_neg :: "jsnum \<Rightarrow> jsnum" where
  "js_neg x =
     (case x of Num p \<Rightarrow> Num (- p) | Infinity \<Rightarrow> NegInfinity | NegInfinity \<Rightarrow> Infinity
      | NaN \<Rightarrow> NaN)"

definition round_double :: "real \<Rightarrow> jsnum" where
  "round_double x =
     (if x = 0 then Num 0 else if 0 < x then round_pos x else js_neg (round_pos (- x)))"

text \<open>
  The operators \<open>/\<close> and \<open>*\<close>. The zero divisor that reaches the division is the positive
  zero the native side sends for a length of 0.
\<close>

fun js_div :: "jsnum \<Rightarrow> jsnum \<Rightarrow> jsnum" where
  "js_div NaN _ = NaN"
| "js_div _ NaN = NaN"
| "js_div (Num a) (Num b) =
     (if b = 0 then (if a = 0 then NaN else if 0 < a then Infinity else NegInfinity)
      else round_double (a / b))"
| "js_div (Num a) Infinity = Num 0"
| "js_div (Num a) NegInfinity = Num 0"
| "js_div Infinity (Num b) = (if 0 \<le> b then Infinity else NegInfinity)"
| "js_div NegInfinity (Num b) = (if 0 \<le> b then NegInfinity else Infinity)"
| "js_div Infinity _ = NaN"
| "js_div NegInfinity _ = NaN"

fun js_mul :: "jsnum \<Rightarrow> jsnum \<Rightarrow> jsnum" where
  "js_mul NaN _ = NaN"
| "js_mul _ NaN = NaN"
| "js_mul (Num a) (Num b) = round_double (a * b)"
| "js_mul (Num a) Infinity =
     (if a = 0 then NaN else if 0 < a then Infinity else NegInfinity)"
| "js_mul (Num a) NegInfinity =
     (if a = 0 then NaN else if 0 < a then NegInfinity else Infinity)"
| "js_mul Infinity (Num b) =
     (if b = 0 then NaN else if 0 < b then Infinity else NegInfinity)"
| "js_mul NegInfinity (Num b) =
     (if b = 0 then NaN else if 0 < b then NegInfinity else Infinity)"
| "js_mul Infinity Infinity = Infinity"
| "js_mul Infinity NegInfinity = NegInfinity"
| "js_mul NegInfinity Infinity = NegInfinity"
| "js_mul NegInfinity NegInfinity = Infinity"

text \<open>A number that is a percentage: finite and between 0 and 100.\<close>

definition is_percent :: "jsnum \<Rightarrow> bool" where
  "is_percent x = (case x of Num p \<Rightarrow> 0 \<le> p \<and> p \<le> 100 | _ \<Rightarrow> False)"

text \<open>
  A thrown value: an \<open>Error\<close> object with its message, or any other value with the string
  \<open>String(error)\<close> makes of it. \<open>message_of\<close> is the expression
  \<^verbatim>\<open>error instanceof Error ? error.message : String(error)\<close>.
\<close>

datatype thrown = JsError jsstring | NonError jsstring

definition message_of :: "thrown \<Rightarrow> jsstring" where
  "message_of t = (case t of JsError m \<Rightarrow> m | NonError r \<Rightarrow> r)"

section \<open>The device: file system, network, engine and their history\<close>

text \<open>
  What exists at a path: a directory, or a regular file with its length in bytes.
  \<open>RNFS.exists\<close> and \<open>java.io.File.exists\<close> both ask the same file system.
\<close>

datatype node = Directory | File nat

text \<open>
  A value a native promise settles with: \<open>promise.reject(code, message)\<close> is
  \<open>Inl (code, message)\<close>, \<open>promise.resolve(v)\<close> is \<open>Inr v\<close>. Awaiting a rejected
  native promise throws an \<open>Error\<close> that carries the message.
\<close>

type_synonym 'a promise = "(jsstring \<times> jsstring) + 'a"

definition await :: "'a promise \<Rightarrow> thrown + 'a" where
  "await p = (case p of Inl (code, message) \<Rightarrow> Inl (JsError message) | Inr v \<Rightarrow> Inr v)"

text \<open>
  One run of \<open>RNFS.downloadFile\<close>: the \<open>(bytesWritten, contentLength)\<close> pairs its progress
  callback receives (two JavaScript numbers), the length of the file it leaves at \<open>toFile\<close> when its promise
  settles (\<open>None\<close>: it wrote nothing there), and how the promise settles: a rejection or
  the \<open>statusCode\<close> of the result.
\<close>

record transfer =
  tr_progress :: "(jsnum \<times> jsnum) list"
  tr_left :: "nat option"
  tr_result :: "thrown + int"

text \<open>
  One run of \<open>downloadModel(onProgress)\<close> of \<^verbatim>\<open>src/utils/modelUtils\<close>, which \<^verbatim>\<open>App.tsx\<close> imports
  and the sources do not contain: the progress objects \<open>(progress, bytesWritten,
  totalBytes)\<close> it reports, the file it leaves at the model path and the value it throws,
  if any.
\<close>

record download_run =
  dl_progress :: "(jsnum \<times> int \<times> int) list"
  dl_left :: "nat option"
  dl_thrown :: "thrown option"

text \<open>
  The behaviour of everything outside the repository: the libraries, the operating
  system, the network and the inference engine. A Kotlin exception is given by its
  message.
\<close>

record env =
  DocumentDirectoryPath :: jsstring
  exists_rejects :: "jsstring \<Rightarrow> thrown option"
  mkdir_rejects :: "jsstring \<Rightarrow> thrown option"
  downloadFile :: "jsstring \<Rightarrow> jsstring \<Rightarrow> transfer"
  setItem_rejects :: bool
  dir_length :: nat
  createFromOptions_throws :: "jsstring \<Rightarrow> jsstring option"
  generateResponse_result :: "jsstring \<Rightarrow> jsstring + jsstring"
  close_throws :: "jsstring option"
  decodeFile_null :: "jsstring \<Rightarrow> bool"
  session_create_throws :: "jsstring option"
  addQueryChunk_throws :: "jsstring \<Rightarrow> jsstring option"
  addImage_throws :: "jsstring option"
  session_generateResponse_result :: "jsstring \<Rightarrow> jsstring + jsstring"
  downloadModel_run :: download_run
  handleNetworkError :: "thrown \<Rightarrow> jsstring"

text \<open>
  The history of a run: every call that leaves the repository's code (console and
  Android log lines by their constant text, file system, storage, engine, bitmap) and
  every update of the three hooks the download modal and the status badge render.
\<close>

datatype event =
    Console string
  | AndroidLog string
  | RNFS_exists jsstring
  | RNFS_mkdir jsstring
  | RNFS_downloadFile jsstring jsstring
  | AsyncStorage_setItem
  | ModelUtils_downloadModel
  | LlmInference_createFromOptions jsstring
  | LlmInference_generateResponse jsstring
  | LlmInference_close
  | BitmapFactory_decodeFile jsstring
  | Bitmap_recycle
  | Session_createFromOptions
  | Session_addQueryChunk jsstring
  | Session_addImage
  | Session_generateResponse
  | Session_close
  | SetModelReady bool
  | SetDownloading bool
  | SetDownloadError "jsstring option"

datatype sender = User | Ai

record message =
  msg_id :: jsstring
  msg_text :: jsstring
  msg_sender :: sender
  msg_image :: "jsstring option"

text \<open>
  The whole state: the device (\<open>fs\<close>, \<open>stored\<close>: the value under the storage key
  \<open>messages\<close>), the history, the field \<open>model\<close> of \<open>GemmaModule\<close> (a loaded engine, named by
  the path it was created from), the static fields of \<open>GemmaInference\<close> and the hooks of
  \<open>App\<close>.
\<close>

record state =
  fs :: "jsstring \<rightharpoonup> node"
  stored :: "message list option"
  trace :: "event list"
  model :: "jsstring option"
  modelPath :: jsstring
  isInitialized :: bool
  messages :: "message list"
  input :: jsstring
  selectedImage :: "jsstring option"
  loading :: bool
  modelReady :: bool
  downloading :: bool
  downloadProgress :: jsnum
  bytesWritten :: int
  totalBytes :: int
  downloadError :: "jsstring option"

definition emit :: "event \<Rightarrow> state \<Rightarrow> state" where
  "emit ev s = s\<lparr>trace := trace s @ [ev]\<rparr>"

definition file_length :: "env \<Rightarrow> node \<Rightarrow> nat" where
  "file_length e n = (case n of File len \<Rightarrow> len | Directory \<Rightarrow> dir_length e)"

section \<open>GemmaModule.kt\<close>

definition GemmaModule_loadModel :: "env \<Rightarrow> jsstring \<Rightarrow> state \<Rightarrow> jsstring promise \<times> state" where
  "GemmaModule_loadModel e path s =
     (case fs s path of
        None \<Rightarrow> (Inl (lit ''LOAD_ERROR'', lit ''Model file not found at: '' @ path), s)
      | Some n \<Rightarrow>
          if file_length e n = 0
          then (Inl (lit ''LOAD_ERROR'', lit ''Model file is empty: '' @ path), s)
          else
            let s1 = emit (AndroidLog ''Loading model from: '') s;
                s2 = emit (LlmInference_createFromOptions path) s1
            in (case createFromOptions_throws e path of
                  Some m \<Rightarrow> (Inl (lit ''LOAD_ERROR'', m), emit (AndroidLog ''Failed to load model'') s2)
                | None \<Rightarrow>
                    (Inr (lit ''Model loaded successfully''),
                     emit (AndroidLog ''Model loaded successfully'') (s2\<lparr>model := Some path\<rparr>))))"

definition GemmaModule_generate :: "env \<Rightarrow> jsstring \<Rightarrow> state \<Rightarrow> jsstring promise \<times> state" where
  "GemmaModule_generate e prompt s =
     (if model s = None then (Inl (lit ''NO_MODEL'', lit ''Model not loaded''), s)
      else
        let s1 = emit (LlmInference_generateResponse prompt) s
        in (case generateResponse_result e prompt of
              Inr response \<Rightarrow> (Inr response, s1)
            | Inl m \<Rightarrow> (Inl (lit ''GENERATE_ERROR'', m), emit (AndroidLog ''Generation failed'') s1)))"

text \<open>
  The body of \<open>LlmInferenceSession.createFromOptions(...).use { session -> ... }\<close>:
  \<open>use\<close> closes the session on both exits once it has been created.
\<close>

definition session_use :: "env \<Rightarrow> jsstring \<Rightarrow> state \<Rightarrow> (jsstring + jsstring) \<times> state" where
  "session_use e prompt s =
     (let s1 = emit Session_createFromOptions s
      in (case session_create_throws e of
            Some m \<Rightarrow> (Inl m, s1)
          | None \<Rightarrow>
              (let s2 = emit (Session_addQueryChunk prompt) s1
               in (case addQueryChunk_throws e prompt of
                     Some m \<Rightarrow> (Inl m, emit Session_close s2)
                   | None \<Rightarrow>
                       (let s3 = emit Session_addImage s2
                        in (case addImage_throws e of
                              Some m \<Rightarrow> (Inl m, emit Session_close s3)
                            | None \<Rightarrow>
                                (let s4 = emit Session_generateResponse s3
                                 in (session_generateResponse_result e prompt,
                                     emit Session_close s4))))))))"

definition GemmaModule_generateWithImage ::
    "env \<Rightarrow> jsstring \<Rightarrow> jsstring \<Rightarrow> state \<Rightarrow> jsstring promise \<times> state" where
  "GemmaModule_generateWithImage e prompt imagePath s =
     (if model s = None then (Inl (lit ''NO_MODEL'', lit ''Model not loaded''), s)
      else if fs s imagePath = None
      then (Inl (lit ''FILE_NOT_FOUND'', lit ''Image file does not exist at '' @ imagePath), s)
      else
        let s1 = emit (BitmapFactory_decodeFile imagePath) s
        in if decodeFile_null e imagePath
           then (Inl (lit ''INVALID_IMAGE'', lit ''Failed to decode image''), s1)
           else (case session_use e prompt s1 of
                   (Inr response, s2) \<Rightarrow> (Inr response, emit Bitmap_recycle s2)
                 | (Inl m, s2) \<Rightarrow>
                     (Inl (lit ''GENERATE_ERROR'', m),
                      emit (AndroidLog ''Vision generation failed'') s2)))"

definition GemmaModule_unloadModel :: "env \<Rightarrow> state \<Rightarrow> jsstring promise \<times> state" where
  "GemmaModule_unloadModel e s =
     (case model s of
        None \<Rightarrow> (Inr (lit ''Model unloaded''), s\<lparr>model := None\<rparr>)
      | Some h \<Rightarrow>
          let s1 = emit LlmInference_close s
          in (case close_throws e of
                Some m \<Rightarrow> (Inl (lit ''UNLOAD_ERROR'', m), s1)
              | None \<Rightarrow> (Inr (lit ''Model unloaded''), s1\<lparr>model := None\<rparr>)))"

section \<open>GemmaInference.ts\<close>

text \<open>The \<open>catch\<close> block of \<open>initialize\<close>.\<close>

definition initialize_catch :: "thrown \<Rightarrow> state \<Rightarrow> (thrown + unit) \<times> state" where
  "initialize_catch t s =
     (Inl (JsError (lit ''Failed to initialize Gemma model: '' @ message_of t)),
      emit (Console ''Model initialization failed:'') (s\<lparr>isInitialized := False\<rparr>))"

definition initialize :: "env \<Rightarrow> jsstring \<Rightarrow> state \<Rightarrow> (thrown + unit) \<times> state" where
  "initialize e path s =
     (let s1 = emit (RNFS_exists path) s
      in case exists_rejects e path of
           Some t \<Rightarrow> initialize_catch t s1
         | None \<Rightarrow>
             if fs s1 path = None
             then initialize_catch (JsError (lit ''Model file not found at: '' @ path)) s1
             else
               let s2 = emit (Console ''Loading model from:'') (s1\<lparr>modelPath := path\<rparr>)
               in (case GemmaModule_loadModel e path s2 of
                     (r, s3) \<Rightarrow>
                       (case await r of
                          Inl t \<Rightarrow> initialize_catch t s3
                        | Inr v \<Rightarrow>
                            (Inr (),
                             emit (Console ''Model loaded successfully'')
                               (s3\<lparr>isInitialized := True\<rparr>)))))"

definition normalizePath :: "jsstring \<Rightarrow> jsstring" where
  "normalizePath path = (if take 8 path = lit ''file:///'' then drop 7 path else path)"

text \<open>
  The test \<^verbatim>\<open>imagePath?.trim()\<close>: the path when it is a string that is not blank, \<open>None\<close>
  when it is \<open>null\<close>, \<open>undefined\<close> or blank.
\<close>

definition trimmed_truthy :: "jsstring option \<Rightarrow> jsstring option" where
  "trimmed_truthy imagePath =
     (case imagePath of
        None \<Rightarrow> None
      | Some p \<Rightarrow> if trim p = [] then None else Some p)"

text \<open>The \<open>try\<close> block of \<open>generate\<close>, after its console line.\<close>

definition generate_try ::
    "env \<Rightarrow> jsstring \<Rightarrow> jsstring option \<Rightarrow> state \<Rightarrow> (thrown + jsstring) \<times> state" where
  "generate_try e prompt imagePath s =
     (case trimmed_truthy imagePath of
        Some p \<Rightarrow>
          let s1 = emit (RNFS_exists p) s
          in (case exists_rejects e p of
                Some t \<Rightarrow> (Inl t, s1)
              | None \<Rightarrow>
                  if fs s1 p = None
                  then (Inl (JsError (lit ''Image not found at: '' @ p)), s1)
                  else (case GemmaModule_generateWithImage e prompt (normalizePath p) s1 of
                          (r, s2) \<Rightarrow> (await r, s2)))
      | None \<Rightarrow> (case GemmaModule_generate e prompt s of (r, s2) \<Rightarrow> (await r, s2)))"

definition generate ::
    "env \<Rightarrow> jsstring \<Rightarrow> jsstring option \<Rightarrow> state \<Rightarrow> (thrown + jsstring) \<times> state" where
  "generate e prompt imagePath s =
     (if \<not> isInitialized s
      then (Inl (JsError (lit ''Model not initialized. Call initialize() first.'')), s)
      else if trim prompt = []
      then (Inl (JsError (lit ''Prompt cannot be empty'')), s)
      else
        (case generate_try e prompt imagePath (emit (Console ''Generating response for:'') s) of
           (Inr response, s1) \<Rightarrow> (Inr response, s1)
         | (Inl t, s1) \<Rightarrow>
             (Inl (JsError (lit ''Generation failed: '' @ message_of t)),
              emit (Console ''Generation failed:'') s1)))"

definition unload :: "env \<Rightarrow> state \<Rightarrow> (thrown + unit) \<times> state" where
  "unload e s =
     (if \<not> isInitialized s then (Inr (), emit (Console ''Model was not loaded'') s)
      else (case GemmaModule_unloadModel e s of
              (r, s1) \<Rightarrow>
                (case await r of
                   Inr v \<Rightarrow>
                     (Inr (),
                      emit (Console ''Model unloaded successfully'') (s1\<lparr>isInitialized := False\<rparr>))
                 | Inl t \<Rightarrow> (Inl t, emit (Console ''Failed to unload model:'') s1))))"

text \<open>\<^verbatim>\<open>await GemmaInference.unload(); await GemmaInference.unload();\<close>\<close>

definition unload_twice :: "env \<Rightarrow> state \<Rightarrow> (thrown + unit) \<times> state" where
  "unload_twice e s =
     (case unload e s of
        (Inl t, s1) \<Rightarrow> (Inl t, s1)
      | (Inr v, s1) \<Rightarrow> unload e s1)"

section \<open>The hooks of App\<close>

definition setModelReady :: "bool \<Rightarrow> state \<Rightarrow> state" where
  "setModelReady b s = emit (SetModelReady b) (s\<lparr>modelReady := b\<rparr>)"

definition setDownloading :: "bool \<Rightarrow> state \<Rightarrow> state" where
  "setDownloading b s = emit (SetDownloading b) (s\<lparr>downloading := b\<rparr>)"

definition setDownloadError :: "jsstring option \<Rightarrow> state \<Rightarrow> state" where
  "setDownloadError m s = emit (SetDownloadError m) (s\<lparr>downloadError := m\<rparr>)"

definition MODEL_URL :: jsstring where
  "MODEL_URL = lit ''https://huggingface.co/google/gemma-3n-E2B-it-litert-lm/resolve/main/gemma-3n-E2B-it-int4.litertlm?download=true''"

definition MODEL_NAME :: jsstring where
  "MODEL_NAME = lit ''gemma3n.litertlm''"

definition MODELS_PATH :: "env \<Rightarrow> jsstring" where
  "MODELS_PATH e = DocumentDirectoryPath e @ lit ''/models''"

definition MODEL_PATH :: "env \<Rightarrow> jsstring" where
  "MODEL_PATH e = MODELS_PATH e @ lit ''/'' @ MODEL_NAME"

section \<open>App with the model utilities inline\<close>

text \<open>
  The revision of \<open>App\<close> that defines \<open>checkModelExists\<close> and \<open>downloadModel\<close> itself (it
  follows \<open>GemmaInference\<close> in the sources). Its console lines start with an emoji, which
  the history leaves out.
\<close>

definition checkModelExists :: "env \<Rightarrow> state \<Rightarrow> bool \<times> state" where
  "checkModelExists e s =
     (let s1 = emit (RNFS_exists (MODEL_PATH e)) s
      in case exists_rejects e (MODEL_PATH e) of
           Some t \<Rightarrow> (False, emit (Console ''Error checking model:'') s1)
         | None \<Rightarrow> (fs s1 (MODEL_PATH e) \<noteq> None, emit (Console ''Model exists at'') s1))"

text \<open>The \<open>progress\<close> callback handed to \<open>RNFS.downloadFile\<close>.\<close>

definition progress :: "jsnum \<times> jsnum \<Rightarrow> state \<Rightarrow> state" where
  "progress res s =
     (case res of
        (res_bytesWritten, res_contentLength) \<Rightarrow>
          emit (Console ''Download progress:'')
            (s\<lparr>downloadProgress := js_mul (js_div res_bytesWritten res_contentLength) (Num 100)\<rparr>))"

text \<open>
  \<open>RNFS.downloadFile\<close> with its promise awaited: the callbacks run, then the file the
  transfer leaves is at \<open>toFile\<close>.
\<close>

definition RNFS_downloadFile_run ::
    "env \<Rightarrow> jsstring \<Rightarrow> jsstring \<Rightarrow> state \<Rightarrow> (thrown + int) \<times> state" where
  "RNFS_downloadFile_run e fromUrl toFile s =
     (let tr = downloadFile e fromUrl toFile;
          s1 = foldl (\<lambda>a res. progress res a) (emit (RNFS_downloadFile fromUrl toFile) s)
                 (tr_progress tr);
          s2 = (case tr_left tr of
                  None \<Rightarrow> s1
                | Some len \<Rightarrow> s1\<lparr>fs := (fs s1)(toFile \<mapsto> File len)\<rparr>)
      in (tr_result tr, s2))"

definition RNFS_mkdir_run :: "env \<Rightarrow> jsstring \<Rightarrow> state \<Rightarrow> (thrown + unit) \<times> state" where
  "RNFS_mkdir_run e path s =
     (let s1 = emit (RNFS_mkdir path) s
      in case mkdir_rejects e path of
           Some t \<Rightarrow> (Inl t, s1)
         | None \<Rightarrow> (Inr (), s1\<lparr>fs := (fs s1)(path \<mapsto> Directory)\<rparr>))"

text \<open>
  The \<open>try\<close> block of \<open>downloadModel\<close>: first the directory is probed and, when it is
  missing, created; then the file is downloaded.
\<close>

definition ensure_directory :: "env \<Rightarrow> state \<Rightarrow> (thrown + unit) \<times> state" where
  "ensure_directory e s =
     (let s1 = emit (RNFS_exists (MODELS_PATH e)) s
      in case exists_rejects e (MODELS_PATH e) of
           Some t \<Rightarrow> (Inl t, s1)
         | None \<Rightarrow>
             if fs s1 (MODELS_PATH e) = None
             then RNFS_mkdir_run e (MODELS_PATH e)
                    (emit (Console ''Creating models directory...'') s1)
             else (Inr (), s1))"

definition downloadModel_try :: "env \<Rightarrow> state \<Rightarrow> (thrown + bool) \<times> state" where
  "downloadModel_try e s =
     (case ensure_directory e s of
        (Inl t, s2) \<Rightarrow> (Inl t, s2)
      | (Inr v, s2) \<Rightarrow>
          (case RNFS_downloadFile_run e MODEL_URL (MODEL_PATH e)
                  (emit (Console ''Starting model download...'') s2) of
             (Inl t, s3) \<Rightarrow> (Inl t, s3)
           | (Inr statusCode, s3) \<Rightarrow>
               if statusCode = 200
               then (Inr True,
                     setDownloading False (emit (Console ''Model downloaded successfully'') s3))
               else (Inl (JsError (lit ''Download failed with status: '' @ toString statusCode)),
                     s3)))"

definition downloadModel :: "env \<Rightarrow> state \<Rightarrow> bool \<times> state" where
  "downloadModel e s =
     (let s0 = setDownloadError None ((setDownloading True s)\<lparr>downloadProgress := Num 0\<rparr>)
      in case downloadModel_try e s0 of
           (Inr b, s1) \<Rightarrow> (b, s1)
         | (Inl t, s1) \<Rightarrow>
             (False,
              setDownloading False
                (setDownloadError
                   (Some (case t of JsError m \<Rightarrow> m | NonError r \<Rightarrow> lit ''Download failed''))
                   (emit (Console ''Download error:'') s1))))"

text \<open>
  \<open>initModel\<close> of this revision. Its \<open>try\<close> block returns \<open>None\<close> where the source
  returns early.
\<close>

definition initModel_inline_try :: "env \<Rightarrow> state \<Rightarrow> (thrown + unit option) \<times> state" where
  "initModel_inline_try e s =
     (case checkModelExists e (emit (Console ''Initializing model...'') s) of
        (modelExists, s1) \<Rightarrow>
          (case (if \<not> modelExists
                 then downloadModel e (emit (Console ''Model not found, starting download...'') s1)
                 else (True, s1)) of
             (downloaded, s2) \<Rightarrow>
               if \<not> downloaded then (Inr None, emit (Console ''Model download failed'') s2)
               else if MODEL_PATH e = [] then (Inl (JsError (lit ''MODEL_PATH is null'')), s2)
               else
                 (case initialize e (MODEL_PATH e)
                         (emit (Console ''Loading model into inference engine...'') s2) of
                    (Inl t, s3) \<Rightarrow> (Inl t, s3)
                  | (Inr v, s3) \<Rightarrow>
                      (Inr (Some ()), emit (Console ''Model ready!'') (setModelReady True s3)))))"

definition initModel_inline :: "env \<Rightarrow> state \<Rightarrow> state" where
  "initModel_inline e s =
     (case initModel_inline_try e s of
        (Inr v, s1) \<Rightarrow> s1
      | (Inl t, s1) \<Rightarrow>
          setDownloadError
            (Some (case t of JsError m \<Rightarrow> m | NonError r \<Rightarrow> lit ''Initialization failed''))
            (emit (Console ''Model initialization failed:'') s1))"

section \<open>App.tsx\<close>

text \<open>
  \<open>App.tsx\<close> imports \<open>MODEL_PATH\<close>, \<open>checkModelExists\<close>, \<open>downloadModel\<close> and
  \<open>handleNetworkError\<close> from \<^verbatim>\<open>src/utils/modelUtils\<close>, which the sources do not contain.
  \<open>MODEL_PATH\<close> and \<open>checkModelExists\<close> are the definitions above, the only ones of these
  names in the sources; a run of \<open>downloadModel\<close> and the function \<open>handleNetworkError\<close>
  are taken from the environment.
\<close>

definition onProgress :: "jsnum \<times> int \<times> int \<Rightarrow> state \<Rightarrow> state" where
  "onProgress p s =
     (case p of
        (p_progress, p_bytesWritten, p_totalBytes) \<Rightarrow>
          s\<lparr>downloadProgress := p_progress, bytesWritten := p_bytesWritten,
            totalBytes := p_totalBytes\<rparr>)"

definition ModelUtils_downloadModel_run :: "env \<Rightarrow> state \<Rightarrow> thrown option \<times> state" where
  "ModelUtils_downloadModel_run e s =
     (let run = downloadModel_run e;
          s1 = foldl (\<lambda>a p. onProgress p a) (emit ModelUtils_downloadModel s) (dl_progress run);
          s2 = (case dl_left run of
                  None \<Rightarrow> s1
                | Some len \<Rightarrow> s1\<lparr>fs := (fs s1)(MODEL_PATH e \<mapsto> File len)\<rparr>)
      in (dl_thrown run, s2))"

definition handleDownload :: "env \<Rightarrow> state \<Rightarrow> bool \<times> state" where
  "handleDownload e s =
     (let s0 = setDownloadError None
                 ((setDownloading True s)\<lparr>downloadProgress := Num 0, bytesWritten := 0,
                                           totalBytes := 0\<rparr>)
      in case ModelUtils_downloadModel_run e s0 of
           (None, s1) \<Rightarrow> (True, setDownloading False s1)
         | (Some t, s1) \<Rightarrow>
             (False, setDownloading False (setDownloadError (Some (handleNetworkError e t)) s1)))"

definition initModel_try :: "env \<Rightarrow> state \<Rightarrow> (thrown + unit option) \<times> state" where
  "initModel_try e s =
     (case checkModelExists e (emit (Console ''Initializing model...'') s) of
        (modelExists, s1) \<Rightarrow>
          (case (if \<not> modelExists
                 then handleDownload e (emit (Console ''Model not found, starting download...'') s1)
                 else (True, s1)) of
             (downloaded, s2) \<Rightarrow>
               if \<not> downloaded then (Inr None, emit (Console ''Model download failed'') s2)
               else if MODEL_PATH e = [] then (Inl (JsError (lit ''MODEL_PATH is null'')), s2)
               else
                 (case initialize e (MODEL_PATH e)
                         (emit (Console ''Loading model into inference engine...'') s2) of
                    (Inl t, s3) \<Rightarrow> (Inl t, s3)
                  | (Inr v, s3) \<Rightarrow>
                      (Inr (Some ()), emit (Console ''Model ready!'') (setModelReady True s3)))))"

definition initModel :: "env \<Rightarrow> state \<Rightarrow> state" where
  "initModel e s =
     (case initModel_try e s of
        (Inr v, s1) \<Rightarrow> s1
      | (Inl t, s1) \<Rightarrow>
          setModelReady False
            (setDownloadError (Some (handleNetworkError e t))
               (emit (Console ''Model initialization failed:'') s1)))"

text \<open>
  \<open>saveMessages\<close> of \<^verbatim>\<open>messageUtils\<close>, which \<open>App.saveMessages\<close> awaits: a failing write is
  logged and not thrown.
\<close>

definition saveMessages :: "env \<Rightarrow> message list \<Rightarrow> state \<Rightarrow> state" where
  "saveMessages e newMessages s =
     (let s1 = emit AsyncStorage_setItem s
      in if setItem_rejects e then emit (Console ''Error saving messages:'') s1
         else s1\<lparr>stored := Some newMessages\<rparr>)"

text \<open>
  \<open>sendMessage\<close>; \<open>now1\<close> and \<open>now2\<close> are what \<open>Date.now()\<close> returns for the user message and
  for the answer. \<open>userMsg\<close> is the message it builds, \<open>sendMessage_pending\<close> the state in
  which it awaits \<open>GemmaInference.generate\<close>.
\<close>

definition userMsg :: "int \<Rightarrow> state \<Rightarrow> message" where
  "userMsg now1 s =
     \<lparr>msg_id = toString now1, msg_text = input s, msg_sender = User,
      msg_image = (if truthy (selectedImage s) then selectedImage s else None)\<rparr>"

definition sendMessage_pending :: "env \<Rightarrow> int \<Rightarrow> state \<Rightarrow> state" where
  "sendMessage_pending e now1 s =
     (let updatedMessages = messages s @ [userMsg now1 s];
          s1 = saveMessages e updatedMessages (s\<lparr>messages := updatedMessages\<rparr>)
      in s1\<lparr>input := [], selectedImage := None, loading := True\<rparr>)"

definition sendMessage :: "env \<Rightarrow> int \<Rightarrow> int \<Rightarrow> state \<Rightarrow> state" where
  "sendMessage e now1 now2 s =
     (if trim (input s) = [] \<and> \<not> truthy (selectedImage s) then s
      else if \<not> modelReady s then s
      else
        let updatedMessages = messages s @ [userMsg now1 s]
        in (case generate e (input s) (selectedImage s) (sendMessage_pending e now1 s) of
              (Inr response, s3) \<Rightarrow>
                let aiMsg = \<lparr>msg_id = toString (now2 + 1), msg_text = response, msg_sender = Ai,
                             msg_image = None\<rparr>;
                    finalMessages = updatedMessages @ [aiMsg];
                    s4 = saveMessages e finalMessages (s3\<lparr>messages := finalMessages\<rparr>)
                in s4\<lparr>loading := False\<rparr>
            | (Inl t, s3) \<Rightarrow> (emit (Console ''Generation failed:'') s3)\<lparr>loading := False\<rparr>))"

text \<open>
  A session of sends: before each one the user types \<open>text\<close> and picks \<open>image\<close>, and the
  device behaves as \<open>e\<close>.
\<close>

record send =
  send_env :: env
  send_text :: jsstring
  send_image :: "jsstring option"
  send_now1 :: int
  send_now2 :: int

fun sends :: "send list \<Rightarrow> state \<Rightarrow> state" where
  "sends [] s = s"
| "sends (x # xs) s =
     sends xs
       (sendMessage (send_env x) (send_now1 x) (send_now2 x)
          (s\<lparr>input := send_text x, selectedImage := send_image x\<rparr>))"

section \<open>The readiness states of the specification\<close>

text \<open>
  The sources have no readiness type. The state a run shows is read off its history:
  the console lines that open the probe and the activation, and the updates of the
  \<open>downloading\<close>, \<open>modelReady\<close> and \<open>downloadError\<close> hooks.
\<close>

datatype ReadinessState =
    Uninitialized | CheckingArtifact | Downloading | Activating | Ready | Failed jsstring

fun readiness_of :: "event \<Rightarrow> ReadinessState list" where
  "readiness_of (Console l) =
     (if l = ''Initializing model...'' then [CheckingArtifact]
      else if l = ''Loading model into inference engine...'' then [Activating]
      else [])"
| "readiness_of (SetDownloading b) = (if b then [Downloading] else [])"
| "readiness_of (SetModelReady b) = (if b then [Ready] else [])"
| "readiness_of (SetDownloadError m) = (case m of None \<Rightarrow> [] | Some r \<Rightarrow> [Failed r])"
| "readiness_of _ = []"

definition state_sequence :: "event list \<Rightarrow> ReadinessState list" where
  "state_sequence tr = Uninitialized # concat (map readiness_of tr)"

text \<open>The calls that reach the inference engine, and the calls that start a download.\<close>

fun is_engine_call :: "event \<Rightarrow> bool" where
  "is_engine_call (LlmInference_createFromOptions p) = True"
| "is_engine_call (LlmInference_generateResponse p) = True"
| "is_engine_call LlmInference_close = True"
| "is_engine_call Session_createFromOptions = True"
| "is_engine_call (Session_addQueryChunk p) = True"
| "is_engine_call Session_addImage = True"
| "is_engine_call Session_generateResponse = True"
| "is_engine_call Session_close = True"
| "is_engine_call _ = False"

fun is_download_call :: "event \<Rightarrow> bool" where
  "is_download_call (RNFS_downloadFile u p) = True"
| "is_download_call ModelUtils_downloadModel = True"
| "is_download_call (SetDownloading b) = True"
| "is_download_call _ = False"

text \<open>
  An event that shows no readiness state and starts no download; \<open>spaced b xs\<close>: in the
  sends \<open>xs\<close> every clock reading is later than the number of the message before it
  (\<open>b\<close> for the first), and no answer is stamped before its question.
\<close>

definition silent :: "event \<Rightarrow> bool" where
  "silent ev = (readiness_of ev = [] \<and> \<not> is_download_call ev)"

fun spaced :: "int \<Rightarrow> send list \<Rightarrow> bool" where
  "spaced b [] = True"
| "spaced b (x # xs) =
     (b < send_now1 x \<and> send_now1 x \<le> send_now2 x \<and> spaced (send_now2 x + 1) xs)"

section \<open>A device and a fresh process\<close>

text \<open>
  A device on which nothing fails: the engine answers \<open>ok\<close>, a transfer delivers 1000
  bytes with status 200. The theorems below are evaluated on it and on variations of it.
\<close>

definition device :: env where
  "device =
     \<lparr>DocumentDirectoryPath = lit ''/data'',
      exists_rejects = (\<lambda>p. None),
      mkdir_rejects = (\<lambda>p. None),
      downloadFile = (\<lambda>u p. \<lparr>tr_progress = [(Num 500, Num 1000), (Num 1000, Num 1000)], tr_left = Some 1000,
                                tr_result = Inr 200\<rparr>),
      setItem_rejects = False,
      dir_length = 4096,
      createFromOptions_throws = (\<lambda>p. None),
      generateResponse_result = (\<lambda>p. Inr (lit ''ok'')),
      close_throws = None,
      decodeFile_null = (\<lambda>p. False),
      session_create_throws = None,
      addQueryChunk_throws = (\<lambda>p. None),
      addImage_throws = None,
      session_generateResponse_result = (\<lambda>p. Inr (lit ''ok'')),
      downloadModel_run = \<lparr>dl_progress = [(Num 100, 1000, 1000)], dl_left = Some 1000,
                            dl_thrown = None\<rparr>,
      handleNetworkError = message_of\<rparr>"

text \<open>
  Variations: an engine whose \<open>generateResponse\<close> throws, and a transfer that is cut
  after 500 of 1000 bytes.
\<close>

definition failing_engine :: env where
  "failing_engine = device\<lparr>generateResponse_result := (\<lambda>p. Inl (lit ''engine failure''))\<rparr>"

definition interrupted_transfer :: env where
  "interrupted_transfer =
     device\<lparr>downloadFile :=
              (\<lambda>u p. \<lparr>tr_progress = [(Num 500, Num 1000)], tr_left = Some 500,
                       tr_result = Inl (JsError (lit ''Network request failed''))\<rparr>)\<rparr>"

text \<open>The user types \<open>hi\<close> and sends it; the clock reads \<open>t1\<close>, and \<open>t2\<close> at the answer.\<close>

definition send_at :: "int \<Rightarrow> int \<Rightarrow> send" where
  "send_at t1 t2 =
     \<lparr>send_env = device, send_text = lit ''hi'', send_image = None, send_now1 = t1,
      send_now2 = t2\<rparr>"

text \<open>
  A fresh process over the files \<open>files\<close>: the hooks at their \<open>useState\<close> defaults, the
  static fields of \<open>GemmaInference\<close> and the field of \<open>GemmaModule\<close> at their initialisers.
\<close>

definition fresh :: "(jsstring \<rightharpoonup> node) \<Rightarrow> state" where
  "fresh files =
     \<lparr>fs = files, stored = None, trace = [], model = None, modelPath = [],
      isInitialized = False, messages = [], input = [], selectedImage = None,
      loading = False, modelReady = False, downloading = False, downloadProgress = Num 0,
      bytesWritten = 0, totalBytes = 0, downloadError = None\<rparr>"

text \<open>A process whose engine is loaded from \<open>path\<close> and whose session is ready.\<close>

definition ready :: "(jsstring \<rightharpoonup> node) \<Rightarrow> jsstring \<Rightarrow> state" where
  "ready files path =
     (fresh files)\<lparr>model := Some path, modelPath := path, isInitialized := True,
                    modelReady := True\<rparr>"

section \<open>What each layer may change\<close>

lemma emit_fields [simp]:
  "trace (emit ev s) = trace s @ [ev]"
  "fs (emit ev s) = fs s"
  "stored (emit ev s) = stored s"
  "model (emit ev s) = model s"
  "modelPath (emit ev s) = modelPath s"
  "isInitialized (emit ev s) = isInitialized s"
  "messages (emit ev s) = messages s"
  "input (emit ev s) = input s"
  "selectedImage (emit ev s) = selectedImage s"
  "loading (emit ev s) = loading s"
  "modelReady (emit ev s) = modelReady s"
  "downloading (emit ev s) = downloading s"
  "downloadProgress (emit ev s) = downloadProgress s"
  "downloadError (emit ev s) = downloadError s"
  by (simp_all add: emit_def)

lemma MODEL_PATH_nonempty: "MODEL_PATH e \<noteq> []"
  by (simp add: MODEL_PATH_def MODEL_NAME_def lit_def)

lemma silent_simps [simp]:
  "silent (Console l) =
     (l \<noteq> ''Initializing model...'' \<and> l \<noteq> ''Loading model into inference engine...'')"
  "silent (AndroidLog l)"
  "silent (RNFS_exists p)"
  "silent (RNFS_mkdir p)"
  "\<not> silent (RNFS_downloadFile u p)"
  "silent AsyncStorage_setItem"
  "\<not> silent ModelUtils_downloadModel"
  "silent (LlmInference_createFromOptions p)"
  "silent (LlmInference_generateResponse p)"
  "silent LlmInference_close"
  "silent (BitmapFactory_decodeFile p)"
  "silent Bitmap_recycle"
  "silent Session_createFromOptions"
  "silent (Session_addQueryChunk p)"
  "silent Session_addImage"
  "silent Session_generateResponse"
  "silent Session_close"
  "silent (SetModelReady b) = (\<not> b)"
  "\<not> silent (SetDownloading b)"
  "silent (SetDownloadError m) = (m = None)"
  by (simp_all add: silent_def split: option.split)

text \<open>The native module only appends to the history and sets its own field.\<close>

lemma loadModel_trace:
  "\<exists>X. trace (snd (GemmaModule_loadModel e p s)) = trace s @ X \<and> list_all silent X"
  by (simp add: GemmaModule_loadModel_def Let_def split: option.split)

lemma session_use_frame:
  "\<exists>X. snd (session_use e p s) = s\<lparr>trace := trace s @ X\<rparr> \<and> list_all silent X"
  apply (rule exI[where x = "drop (length (trace s)) (trace (snd (session_use e p s)))"])
  apply (simp add: session_use_def Let_def emit_def split: option.split)
  done

lemma generateWithImage_frame:
  "\<exists>X. snd (GemmaModule_generateWithImage e p i s) = s\<lparr>trace := trace s @ X\<rparr> \<and> list_all silent X"
proof -
  obtain X where X: "snd (session_use e p (emit (BitmapFactory_decodeFile i) s))
      = (emit (BitmapFactory_decodeFile i) s)\<lparr>trace := trace (emit (BitmapFactory_decodeFile i) s) @ X\<rparr>"
      "list_all silent X"
    using session_use_frame by blast
  show ?thesis
    apply (rule exI[where x = "drop (length (trace s)) (trace (snd (GemmaModule_generateWithImage e p i s)))"])
    using X
    apply (cases "session_use e p (emit (BitmapFactory_decodeFile i) s)")
    apply (simp add: GemmaModule_generateWithImage_def Let_def emit_def split: sum.split)
    done
qed

lemma generate_native_frame:
  "\<exists>X. snd (GemmaModule_generate e p s) = s\<lparr>trace := trace s @ X\<rparr> \<and> list_all silent X"
  apply (rule exI[where x = "drop (length (trace s)) (trace (snd (GemmaModule_generate e p s)))"])
  apply (simp add: GemmaModule_generate_def Let_def emit_def split: sum.split)
  done


lemma generate_try_frame:
  "\<exists>X. snd (generate_try e p i s) = s\<lparr>trace := trace s @ X\<rparr> \<and> list_all silent X"
proof (cases "trimmed_truthy i")
  case None
  obtain X where "snd (GemmaModule_generate e p s) = s\<lparr>trace := trace s @ X\<rparr>" "list_all silent X"
    using generate_native_frame by blast
  with None show ?thesis
    by (cases "GemmaModule_generate e p s") (auto simp: generate_try_def)
next
  case (Some q)
  let ?s1 = "emit (RNFS_exists q) s"
  obtain X where X: "snd (GemmaModule_generateWithImage e p (normalizePath q) ?s1)
      = ?s1\<lparr>trace := trace ?s1 @ X\<rparr>" "list_all silent X"
    using generateWithImage_frame by blast
  show ?thesis
    apply (rule exI[where x = "drop (length (trace s)) (trace (snd (generate_try e p i s)))"])
    using Some X
    apply (cases "GemmaModule_generateWithImage e p (normalizePath q) ?s1")
    apply (simp add: generate_try_def Let_def emit_def split: option.split)
    done
qed

lemma generate_frame:
  "\<exists>X. snd (generate e p i s) = s\<lparr>trace := trace s @ X\<rparr> \<and> list_all silent X"
proof -
  let ?s1 = "emit (Console ''Generating response for:'') s"
  obtain X where X: "snd (generate_try e p i ?s1) = ?s1\<lparr>trace := trace ?s1 @ X\<rparr>"
      "list_all silent X"
    using generate_try_frame by blast
  show ?thesis
    apply (rule exI[where x = "drop (length (trace s)) (trace (snd (generate e p i s)))"])
    using X
    apply (cases "generate_try e p i ?s1")
    apply (simp add: generate_def Let_def emit_def split: sum.split)
    done
qed

lemma initialize_trace:
  "\<exists>X. trace (snd (initialize e p s)) = trace s @ X \<and> list_all silent X"
proof -
  let ?s2 = "emit (Console ''Loading model from:'') ((emit (RNFS_exists p) s)\<lparr>modelPath := p\<rparr>)"
  obtain X where X: "trace (snd (GemmaModule_loadModel e p ?s2)) = trace ?s2 @ X" "list_all silent X"
    using loadModel_trace by blast
  show ?thesis
    apply (rule exI[where x = "drop (length (trace s)) (trace (snd (initialize e p s)))"])
    using X
    apply (cases "GemmaModule_loadModel e p ?s2")
    apply (simp add: initialize_def initialize_catch_def Let_def
        split: option.split sum.split)
    done
qed

lemma progress_foldl_frame:
  "\<exists>X q. foldl (\<lambda>a res. progress res a) s rs = s\<lparr>trace := trace s @ X, downloadProgress := q\<rparr>
         \<and> list_all silent X"
proof (induction rs rule: rev_induct)
  case Nil
  show ?case
    by (rule exI[where x = "[]"], rule exI[where x = "downloadProgress s"]) simp
next
  case (snoc r rs)
  then obtain X q where "foldl (\<lambda>a res. progress res a) s rs
      = s\<lparr>trace := trace s @ X, downloadProgress := q\<rparr>" "list_all silent X"
    by blast
  then show ?case
    apply (cases r)
    apply (rule exI[where x = "X @ [Console ''Download progress:'']"])
    apply (rule exI[where x = "downloadProgress (progress r s)"])
    apply (simp add: progress_def emit_def del: js_div.simps js_mul.simps)
    done
qed

lemma RNFS_downloadFile_run_frame:
  "\<exists>X q. snd (RNFS_downloadFile_run e u p s)
       = s\<lparr>trace := trace s @ RNFS_downloadFile u p # X, downloadProgress := q,
           fs := (case tr_left (downloadFile e u p) of
                    None \<Rightarrow> fs s
                  | Some len \<Rightarrow> (fs s)(p \<mapsto> File len))\<rparr>"
proof -
  let ?s0 = "emit (RNFS_downloadFile u p) s"
  obtain X q where "foldl (\<lambda>a res. progress res a) ?s0 (tr_progress (downloadFile e u p))
      = ?s0\<lparr>trace := trace ?s0 @ X, downloadProgress := q\<rparr>"
    using progress_foldl_frame by blast
  then show ?thesis
    apply -
    apply (rule exI[where x = X], rule exI[where x = q])
    apply (simp add: RNFS_downloadFile_run_def Let_def emit_def split: option.split)
    done
qed

lemma RNFS_downloadFile_run_result:
  "fst (RNFS_downloadFile_run e u p s) = tr_result (downloadFile e u p)"
  by (simp add: RNFS_downloadFile_run_def Let_def)

lemma ensure_directory_frame:
  "\<exists>Y f. snd (ensure_directory e s)
       = s\<lparr>trace := trace s @ RNFS_exists (MODELS_PATH e) # Y, fs := f\<rparr>"
  apply (rule exI[where x = "drop (Suc (length (trace s))) (trace (snd (ensure_directory e s)))"])
  apply (rule exI[where x = "fs (snd (ensure_directory e s))"])
  apply (simp add: ensure_directory_def RNFS_mkdir_run_def Let_def emit_def split: option.split)
  done

lemma ensure_directory_result:
  "fst (ensure_directory e s) =
     (case exists_rejects e (MODELS_PATH e) of
        Some t \<Rightarrow> Inl t
      | None \<Rightarrow> if fs s (MODELS_PATH e) = None
                then (case mkdir_rejects e (MODELS_PATH e) of Some t \<Rightarrow> Inl t | None \<Rightarrow> Inr ())
                else Inr ())"
  by (simp add: ensure_directory_def RNFS_mkdir_run_def Let_def split: option.split)

lemma downloadModel_try_trace:
  "\<exists>X. trace (snd (downloadModel_try e s)) = trace s @ RNFS_exists (MODELS_PATH e) # X"
proof -
  obtain Y f where Y: "snd (ensure_directory e s)
       = s\<lparr>trace := trace s @ RNFS_exists (MODELS_PATH e) # Y, fs := f\<rparr>"
    using ensure_directory_frame by blast
  let ?s3 = "emit (Console ''Starting model download...'') (snd (ensure_directory e s))"
  obtain X q where X: "snd (RNFS_downloadFile_run e MODEL_URL (MODEL_PATH e) ?s3)
       = ?s3\<lparr>trace := trace ?s3 @ RNFS_downloadFile MODEL_URL (MODEL_PATH e) # X, downloadProgress := q,
           fs := (case tr_left (downloadFile e MODEL_URL (MODEL_PATH e)) of
                    None \<Rightarrow> fs ?s3
                  | Some len \<Rightarrow> (fs ?s3)((MODEL_PATH e) \<mapsto> File len))\<rparr>"
    using RNFS_downloadFile_run_frame by blast
  show ?thesis
    apply (rule exI[where x = "drop (Suc (length (trace s))) (trace (snd (downloadModel_try e s)))"])
    using Y X
    apply (cases "ensure_directory e s"; cases "RNFS_downloadFile_run e MODEL_URL (MODEL_PATH e) ?s3")
    apply (simp add: downloadModel_try_def Let_def setDownloading_def
        split: option.split sum.split)
    done
qed

lemma downloadModel_trace:
  "\<exists>X. trace (snd (downloadModel e s))
      = trace s @ [SetDownloading True, SetDownloadError None, RNFS_exists (MODELS_PATH e)] @ X"
proof -
  let ?s0 = "setDownloadError None ((setDownloading True s)\<lparr>downloadProgress := Num 0\<rparr>)"
  obtain X where X: "trace (snd (downloadModel_try e ?s0)) = trace ?s0 @ RNFS_exists (MODELS_PATH e) # X"
    using downloadModel_try_trace by blast
  show ?thesis
    apply (rule exI[where x = "drop (length (trace s) + 3) (trace (snd (downloadModel e s)))"])
    using X
    apply (cases "downloadModel_try e ?s0")
    apply (simp add: downloadModel_def Let_def setDownloading_def setDownloadError_def
        split: sum.split)
    done
qed

lemma silent_list:
  "list_all silent X \<Longrightarrow> concat (map readiness_of X) = [] \<and> filter is_download_call X = []"
  by (induction X) (simp_all add: silent_def)

lemma undec_snoc: "undec (ds @ [d]) = 10 * undec ds + (d - 48)"
  by (simp add: undec_def)

lemma undec_digits: "undec (digits n) = n"
proof (induction n rule: digits.induct)
  case (1 n)
  show ?case
  proof (cases "n < 10")
    case True
    then show ?thesis by (simp add: digits.simps[of n] undec_def)
  next
    case False
    with 1 show ?thesis by (simp add: digits.simps[of n] undec_snoc)
  qed
qed

lemma digits_nonempty: "digits n \<noteq> []"
  by (subst digits.simps) simp

lemma hd_digits: "hd (digits n) \<noteq> 45"
proof (induction n rule: digits.induct)
  case (1 n)
  show ?case
  proof (cases "n < 10")
    case True
    then show ?thesis by (simp add: digits.simps[of n])
  next
    case False
    with 1 show ?thesis by (simp add: digits.simps[of n] digits_nonempty)
  qed
qed

lemma numberOf_toString: "numberOf (toString i) = i"
proof (cases "i < 0")
  case True
  then show ?thesis by (simp add: numberOf_def toString_def undec_digits)
next
  case False
  obtain c r where cr: "digits (nat i) = c # r"
    using digits_nonempty[of "nat i"] by (cases "digits (nat i)") auto
  with hd_digits[of "nat i"] have "c \<noteq> 45" by simp
  with cr False show ?thesis
    using undec_digits[of "nat i"] by (simp add: numberOf_def toString_def)
qed

lemma sendMessage_messages:
  "\<exists>new. messages (sendMessage e n1 n2 s) = messages s @ new
        \<and> (map (numberOf \<circ> msg_id) new = []
           \<or> map (numberOf \<circ> msg_id) new = [n1]
           \<or> map (numberOf \<circ> msg_id) new = [n1, n2 + 1])"
proof -
  let ?p = "sendMessage_pending e n1 s"
  obtain X where X: "snd (generate e (input s) (selectedImage s) ?p) = ?p\<lparr>trace := trace ?p @ X\<rparr>"
    using generate_frame by blast
  show ?thesis
    apply (rule exI[where x = "drop (length (messages s)) (messages (sendMessage e n1 n2 s))"])
    using X
    apply (cases "generate e (input s) (selectedImage s) ?p")
    apply (simp add: sendMessage_def sendMessage_pending_def saveMessages_def userMsg_def Let_def
        emit_def numberOf_toString split: sum.split)
    done
qed

lemma sends_ids:
  "spaced b xs \<Longrightarrow>
   \<exists>new. messages (sends xs s) = messages s @ new
        \<and> sorted_wrt (<) (map (numberOf \<circ> msg_id) new)
        \<and> (\<forall>n\<in>set (map (numberOf \<circ> msg_id) new). b < n)"
proof (induction xs arbitrary: s b)
  case Nil
  show ?case by simp
next
  case (Cons x xs)
  let ?s0 = "s\<lparr>input := send_text x, selectedImage := send_image x\<rparr>"
  let ?s1 = "sendMessage (send_env x) (send_now1 x) (send_now2 x) ?s0"
  from Cons.prems have b: "b < send_now1 x" "send_now1 x \<le> send_now2 x"
    and rest: "spaced (send_now2 x + 1) xs"
    by simp_all
  from sendMessage_messages [of "send_env x" "send_now1 x" "send_now2 x" ?s0]
  obtain n1 where n1: "messages ?s1 = messages ?s0 @ n1"
      "map (numberOf \<circ> msg_id) n1 = [] \<or> map (numberOf \<circ> msg_id) n1 = [send_now1 x]
       \<or> map (numberOf \<circ> msg_id) n1 = [send_now1 x, send_now2 x + 1]"
    by (elim exE conjE)
  from Cons.IH [OF rest, of ?s1]
  obtain n2 where n2: "messages (sends xs ?s1) = messages ?s1 @ n2"
      "sorted_wrt (<) (map (numberOf \<circ> msg_id) n2)"
      "\<forall>n\<in>set (map (numberOf \<circ> msg_id) n2). send_now2 x + 1 < n"
    by (elim exE conjE)
  define k1 where "k1 = map (numberOf \<circ> msg_id) n1"
  define k2 where "k2 = map (numberOf \<circ> msg_id) n2"
  have k1: "k1 = [] \<or> k1 = [send_now1 x] \<or> k1 = [send_now1 x, send_now2 x + 1]"
    using n1(2) by (simp add: k1_def)
  have k2: "sorted_wrt (<) k2" "\<forall>n\<in>set k2. send_now2 x + 1 < n"
    using n2(2,3) by (simp_all add: k2_def)
  have low: "\<forall>n\<in>set k1. b < n \<and> n \<le> send_now2 x + 1"
    using k1 b by auto
  have "sorted_wrt (<) k1"
    using k1 b by auto
  with k2 low have sorted: "sorted_wrt (<) (k1 @ k2)"
    by (fastforce simp: sorted_wrt_append)
  have above: "\<forall>n\<in>set (k1 @ k2). b < n"
    using low k2(2) b by fastforce
  have "messages (sends (x # xs) s) = messages s @ (n1 @ n2)"
    using n1(1) n2(1) by simp
  moreover have "map (numberOf \<circ> msg_id) (n1 @ n2) = k1 @ k2"
    by (simp add: k1_def k2_def)
  ultimately show ?case
    using sorted above by metis
qed

lemma ilog2_le: "n < 2 ^ Suc k \<Longrightarrow> ilog2 n \<le> k"
proof (induction k arbitrary: n)
  case 0
  then show ?case by (simp add: ilog2.simps[of n])
next
  case (Suc k)
  show ?case
  proof (cases "n < 2")
    case True
    then show ?thesis by (simp add: ilog2.simps[of n])
  next
    case False
    from Suc.prems have "n div 2 < 2 ^ Suc k" by simp
    then have "ilog2 (n div 2) \<le> k" by (rule Suc.IH)
    with False show ?thesis by (simp add: ilog2.simps[of n])
  qed
qed

lemma ilog2_lower: "1 \<le> n \<Longrightarrow> 2 ^ ilog2 n \<le> n"
proof (induction n rule: ilog2.induct)
  case (1 n)
  show ?case
  proof (cases "n < 2")
    case True
    with 1(2) show ?thesis by (simp add: ilog2.simps[of n])
  next
    case False
    then have "1 \<le> n div 2" by simp
    with 1(1) False have "2 ^ ilog2 (n div 2) \<le> n div 2" by simp
    then have "2 * 2 ^ ilog2 (n div 2) \<le> n" by simp
    with False show ?thesis by (simp add: ilog2.simps[of n])
  qed
qed

lemma ilog2_upper: "n < 2 ^ Suc (ilog2 n)"
proof (induction n rule: ilog2.induct)
  case (1 n)
  show ?case
  proof (cases "n < 2")
    case True
    then show ?thesis by (simp add: ilog2.simps[of n])
  next
    case False
    with 1 have "n div 2 < 2 ^ Suc (ilog2 (n div 2))" by simp
    then have "n < 2 * 2 ^ Suc (ilog2 (n div 2))" by simp
    with False show ?thesis by (simp add: ilog2.simps[of n])
  qed
qed

lemma clog2_upper: "n \<le> 2 ^ clog2 n"
proof (cases "n \<le> 1")
  case True
  then show ?thesis by (simp add: clog2_def)
next
  case False
  have "n - 1 < 2 ^ Suc (ilog2 (n - 1))" by (rule ilog2_upper)
  with False show ?thesis by (simp add: clog2_def)
qed

lemma pow2_powi: "pow2 k = 2 powi k"
  by (simp add: pow2_def power_int_def field_simps)

lemma pow2_pos: "0 < pow2 k"
  by (simp add: pow2_powi)

lemma pow2_add: "pow2 (a + b) = pow2 a * pow2 b"
  by (simp add: pow2_powi power_int_add)

lemma pow2_mono: "a \<le> b \<Longrightarrow> pow2 a \<le> pow2 b"
  by (simp add: pow2_powi power_int_increasing)

lemma pow2_nat: "0 \<le> k \<Longrightarrow> pow2 k = of_int (2 ^ nat k)"
  by (simp add: pow2_def)

lemma pow2_neg_nat: "pow2 (- int c) = 1 / 2 ^ c"
  by (cases "c = 0") (simp_all add: pow2_def)

lemma exponent_of_le: "0 < x \<Longrightarrow> x < 2 ^ 53 \<Longrightarrow> exponent_of x \<le> 52"
proof (cases "1 \<le> x")
  case False
  then show ?thesis by (simp add: exponent_of_def)
next
  case True
  assume "x < 2 ^ 53"
  then have "\<lfloor>x\<rfloor> < 9007199254740992" by (simp add: floor_less_iff)
  then have "nat \<lfloor>x\<rfloor> < 9007199254740992" by arith
  then have "nat \<lfloor>x\<rfloor> < 2 ^ Suc 52" by simp
  then have "ilog2 (nat \<lfloor>x\<rfloor>) \<le> 52" by (rule ilog2_le)
  with True show ?thesis by (simp add: exponent_of_def)
qed

lemma exponent_of_lower: "0 < x \<Longrightarrow> pow2 (exponent_of x) \<le> x"
proof (cases "1 \<le> x")
  case True
  then have "1 \<le> nat \<lfloor>x\<rfloor>" by (simp add: le_nat_iff le_floor_iff)
  then have "2 ^ ilog2 (nat \<lfloor>x\<rfloor>) \<le> nat \<lfloor>x\<rfloor>" by (rule ilog2_lower)
  then have "(2::real) ^ ilog2 (nat \<lfloor>x\<rfloor>) \<le> real (nat \<lfloor>x\<rfloor>)"
    by (metis of_nat_le_iff of_nat_numeral of_nat_power)
  also have "\<dots> \<le> x" using True by simp
  finally show ?thesis using True by (simp add: exponent_of_def pow2_def)
next
  case False
  assume pos: "0 < x"
  let ?N = "nat \<lceil>1 / x\<rceil>"
  have "1 / x \<le> real ?N" using pos by (simp add: of_nat_nat le_of_int_ceiling)
  moreover have "real ?N \<le> 2 ^ clog2 ?N"
    by (metis clog2_upper of_nat_le_iff of_nat_numeral of_nat_power)
  ultimately have "1 / x \<le> 2 ^ clog2 ?N" by linarith
  with pos have "1 / 2 ^ clog2 ?N \<le> x"
    by (simp add: field_simps)
  with False show ?thesis
    by (simp add: exponent_of_def pow2_neg_nat)
qed

lemma round_half_even_le: "t \<le> of_int N \<Longrightarrow> round_half_even t \<le> N"
proof -
  assume t: "t \<le> of_int N"
  then have f: "\<lfloor>t\<rfloor> \<le> N" by (simp add: floor_le_iff)
  show ?thesis
  proof (cases "\<lfloor>t\<rfloor> = N")
    case True
    with t have "t = of_int \<lfloor>t\<rfloor>" using of_int_floor_le[of t] by simp
    then have "t - of_int \<lfloor>t\<rfloor> = 0" by simp
    with True show ?thesis by (simp add: round_half_even_def Let_def)
  next
    case False
    with f have "\<lfloor>t\<rfloor> + 1 \<le> N" by simp
    then show ?thesis by (simp add: round_half_even_def Let_def)
  qed
qed

lemma round_half_even_ge: "of_int N \<le> t \<Longrightarrow> N \<le> round_half_even t"
proof -
  assume "of_int N \<le> t"
  then have "N \<le> \<lfloor>t\<rfloor>" by (simp add: le_floor_iff)
  then show ?thesis by (simp add: round_half_even_def Let_def)
qed


lemma round_pos_upper:
  assumes "0 < x" and "x \<le> of_int B" and "B < 2 ^ 53"
  shows "\<exists>p. round_pos x = Num p \<and> 0 \<le> p \<and> p \<le> of_int B"
proof -
  define e where "e = max (exponent_of x) (- 1022)"
  define m where "m = nat (52 - e)"
  define q where "q = pow2 (e - 52)"
  define n where "n = round_half_even (x / q)"
  have B: "real_of_int B < 2 ^ 53"
    using assms(3) by simp
  with assms(2) have "x < 2 ^ 53"
    by linarith
  with assms(1) have "e \<le> 52"
    using exponent_of_le[of x] by (simp add: e_def)
  then have q: "q = 1 / 2 ^ m"
    by (simp add: q_def m_def pow2_def)
  then have xq: "x / q = x * 2 ^ m" by simp
  have "x * 2 ^ m \<le> of_int B * 2 ^ m"
    using assms(2) by simp
  then have "x / q \<le> of_int (B * 2 ^ m)"
    by (simp add: xq)
  then have up: "n \<le> B * 2 ^ m"
    unfolding n_def by (rule round_half_even_le)
  have "of_int 0 \<le> x / q"
    using assms(1) by (simp add: q)
  then have low: "0 \<le> n"
    unfolding n_def by (rule round_half_even_ge)
  have qpos: "0 < q" by (simp add: q)
  have "real_of_int n \<le> real_of_int (B * 2 ^ m)"
    using up by (simp only: of_int_le_iff)
  with qpos have "of_int n * q \<le> of_int (B * 2 ^ m) * q"
    by (simp only: mult_le_cancel_right_pos)
  moreover have "of_int (B * 2 ^ m) * q = of_int B"
    by (simp add: q)
  ultimately have yB: "of_int n * q \<le> of_int B"
    by (simp only:)
  have y0: "0 \<le> of_int n * q"
    using low by (simp add: q)
  have "(2::real) ^ 53 < pow2 1024"
    by (simp add: pow2_def)
  with B yB have "of_int n * q < pow2 1024"
    by linarith
  then have "round_pos x = Num (of_int n * q)"
    by (simp add: round_pos_def Let_def e_def[symmetric] q_def[symmetric] n_def[symmetric])
  with yB y0 show ?thesis by blast
qed


lemma round_pos_lower:
  assumes "0 < x" and "pow2 j \<le> x" and "- 1022 \<le> j"
  shows "round_pos x = Infinity \<or> (\<exists>p. round_pos x = Num p \<and> pow2 j \<le> p)"
proof -
  define e where "e = max (exponent_of x) (- 1022)"
  define q where "q = pow2 (e - 52)"
  define n where "n = round_half_even (x / q)"
  have qpos: "0 < q" by (simp add: q_def pow2_pos)
  have "pow2 j \<le> of_int n * q"
  proof (cases "e \<le> j + 52")
    case True
    then have k: "0 \<le> j - (e - 52)" by simp
    have "pow2 j = pow2 (j - (e - 52)) * q"
      by (simp add: q_def pow2_add[symmetric])
    also have "\<dots> = of_int (2 ^ nat (j - (e - 52))) * q"
      using k by (simp add: pow2_nat)
    finally have pj: "pow2 j = of_int (2 ^ nat (j - (e - 52))) * q" .
    with assms(2) qpos have "of_int (2 ^ nat (j - (e - 52))) \<le> x / q"
      by (simp add: pos_le_divide_eq)
    then have "2 ^ nat (j - (e - 52)) \<le> n"
      unfolding n_def by (rule round_half_even_ge)
    then have "of_int (2 ^ nat (j - (e - 52))) * q \<le> of_int n * q"
      using qpos by (simp only: mult_le_cancel_right_pos of_int_le_iff)
    with pj show ?thesis by simp
  next
    case False
    with assms(3) have unclamped: "e = exponent_of x" and ej: "j \<le> e"
      by (simp_all add: e_def max_def split: if_splits)
    have "pow2 e \<le> x"
      using assms(1) unclamped by (simp add: exponent_of_lower)
    moreover have "pow2 e = pow2 52 * q"
      by (simp add: q_def pow2_add[symmetric])
    moreover have "pow2 52 = of_int 4503599627370496"
      by (simp add: pow2_def)
    ultimately have pe: "pow2 e = of_int 4503599627370496 * q"
      and "of_int 4503599627370496 * q \<le> x"
      by simp_all
    then have "of_int 4503599627370496 \<le> x / q"
      using qpos by (simp only: pos_le_divide_eq)
    then have "4503599627370496 \<le> n"
      unfolding n_def by (rule round_half_even_ge)
    then have "real_of_int 4503599627370496 \<le> real_of_int n"
      by (simp only: of_int_le_iff)
    with qpos have "of_int 4503599627370496 * q \<le> of_int n * q"
      by (simp only: mult_le_cancel_right_pos)
    with pe have "pow2 e \<le> of_int n * q" by simp
    moreover have "pow2 j \<le> pow2 e" using ej by (rule pow2_mono)
    ultimately show ?thesis by linarith
  qed
  then show ?thesis
    by (simp add: round_pos_def Let_def e_def[symmetric] q_def[symmetric] n_def[symmetric])
qed

lemma exponent_of_upper: "0 < x \<Longrightarrow> x < pow2 (exponent_of x + 1)"
proof (cases "1 \<le> x")
  case True
  have "nat \<lfloor>x\<rfloor> < 2 ^ Suc (ilog2 (nat \<lfloor>x\<rfloor>))" by (rule ilog2_upper)
  then have "nat \<lfloor>x\<rfloor> + 1 \<le> 2 ^ Suc (ilog2 (nat \<lfloor>x\<rfloor>))" by simp
  then have "real (nat \<lfloor>x\<rfloor> + 1) \<le> real (2 ^ Suc (ilog2 (nat \<lfloor>x\<rfloor>)))"
    by (simp only: of_nat_le_iff)
  moreover have "x < real (nat \<lfloor>x\<rfloor> + 1)"
    using True by (simp add: of_nat_nat) linarith
  ultimately have "x < real (2 ^ Suc (ilog2 (nat \<lfloor>x\<rfloor>)))" by linarith
  with True show ?thesis
    by (simp add: exponent_of_def pow2_def nat_add_distrib)
next
  case False
  assume pos: "0 < x"
  let ?N = "nat \<lceil>1 / x\<rceil>"
  show ?thesis
  proof (cases "?N \<le> 1")
    case True
    with False show ?thesis by (simp add: exponent_of_def clog2_def pow2_def)
  next
    case N: False
    from N have "1 \<le> ?N - 1" by arith
    then have "2 ^ ilog2 (?N - 1) \<le> ?N - 1"
      by (rule ilog2_lower)
    then have "(2::real) ^ ilog2 (?N - 1) \<le> real (?N - 1)"
      by (metis of_nat_le_iff of_nat_numeral of_nat_power)
    moreover have "real (?N - 1) < 1 / x"
    proof -
      have "real_of_int \<lceil>1 / x\<rceil> - 1 < 1 / x"
        using ceiling_correct [of "1 / x"] by simp
      moreover from N have "int (?N - 1) = \<lceil>1 / x\<rceil> - 1" by arith
      then have "real (?N - 1) = real_of_int (\<lceil>1 / x\<rceil> - 1)"
        by (metis of_int_of_nat_eq)
      ultimately show ?thesis by simp
    qed
    ultimately have "2 ^ ilog2 (?N - 1) < 1 / x" by linarith
    with pos have "x < 1 / 2 ^ ilog2 (?N - 1)"
      by (simp add: field_simps)
    moreover have "exponent_of x + 1 = - int (ilog2 (?N - 1))"
      using False N by (simp add: exponent_of_def clog2_def)
    ultimately show ?thesis
      by (simp add: pow2_neg_nat)
  qed
qed

lemma round_double_upper:
  assumes "0 \<le> x" and "x \<le> of_int B" and "B < 2 ^ 53"
  shows "\<exists>p. round_double x = Num p \<and> 0 \<le> p \<and> p \<le> of_int B"
proof (cases "x = 0")
  case True
  with assms(2) show ?thesis by (simp add: round_double_def)
next
  case False
  with assms(1) have "0 < x" by simp
  with round_pos_upper [OF this assms(2,3)] show ?thesis
    by (simp add: round_double_def)
qed

lemma round_double_negative:
  assumes "x < 0" and "pow2 j \<le> - x" and "- 1022 \<le> j"
  shows "round_double x = NegInfinity \<or> (\<exists>p. round_double x = Num p \<and> p \<le> - pow2 j)"
proof -
  from assms(1) have "0 < - x" by simp
  from round_pos_lower [OF this assms(2,3)] assms(1) show ?thesis
    by (auto simp: round_double_def js_neg_def)
qed

lemma percent_in_range:
  assumes "0 < cl" and "0 \<le> bw" and "bw \<le> cl"
  shows "is_percent (js_mul (js_div (Num (of_int bw)) (Num (of_int cl))) (Num 100))"
proof -
  have "0 \<le> real_of_int bw / real_of_int cl" "real_of_int bw / real_of_int cl \<le> of_int 1"
    using assms by simp_all
  then obtain p where p: "round_double (real_of_int bw / real_of_int cl) = Num p" "0 \<le> p" "p \<le> 1"
    using round_double_upper [of "real_of_int bw / real_of_int cl" 1] by auto
  have "0 \<le> p * 100" "p * 100 \<le> of_int 100"
    using p(2,3) by simp_all
  then obtain r where r: "round_double (p * 100) = Num r" "0 \<le> r" "r \<le> 100"
    using round_double_upper [of "p * 100" 100] by auto
  from assms(1) p(1) r show ?thesis
    by (simp add: is_percent_def)
qed

lemma percent_negative:
  assumes "0 < bw" and "cl < 0" and "- (2 ^ 53) < cl"
  shows "\<not> is_percent (js_mul (js_div (Num (of_int bw)) (Num (of_int cl))) (Num 100))"
proof -
  let ?x = "real_of_int bw / real_of_int cl"
  have tiny: "0 < pow2 (- 53)" by (rule pow2_pos)
  have neg: "?x < 0"
    using assms(1,2) by (simp add: divide_neg_pos divide_pos_neg field_simps)
  have "real_of_int (- cl) < 2 ^ 53"
    using assms(3) by simp
  moreover have "1 \<le> real_of_int bw" using assms(1) by simp
  moreover have "0 < real_of_int (- cl)" using assms(2) by simp
  ultimately have "1 / 2 ^ 53 \<le> real_of_int bw / real_of_int (- cl)"
    by (simp add: field_simps)
  then have low: "pow2 (- 53) \<le> - ?x"
    by (simp add: pow2_def)
  from round_double_negative [OF neg low] consider
      "round_double ?x = NegInfinity"
    | p where "round_double ?x = Num p" "p \<le> - pow2 (- 53)"
    by auto
  then show ?thesis
  proof cases
    case 1
    with assms(2) show ?thesis by (simp add: is_percent_def)
  next
    case 2
    from 2(2) tiny have pneg: "p * 100 < 0" and plow: "pow2 (- 53) \<le> - (p * 100)"
      by simp_all
    from round_double_negative [OF pneg plow] consider
        "round_double (p * 100) = NegInfinity"
      | r where "round_double (p * 100) = Num r" "r \<le> - pow2 (- 53)"
      by auto
    then show ?thesis
    proof cases
      case 1
      with 2(1) assms(2) show ?thesis by (simp add: is_percent_def)
    next
      case 2
      with \<open>round_double ?x = Num p\<close> assms(2) tiny show ?thesis
        by (simp add: is_percent_def)
    qed
  qed
qed

lemma trim_blank_iff: "trim p = [] \<longleftrightarrow> (\<forall>c\<in>set p. isWhiteSpace c)"
proof
  assume "trim p = []"
  then have all: "\<forall>c\<in>set (dropWhile isWhiteSpace p). isWhiteSpace c"
    by (simp add: trim_def dropWhile_eq_Nil_conv)
  have "dropWhile isWhiteSpace p = []"
  proof (cases "dropWhile isWhiteSpace p")
    case Nil
    then show ?thesis .
  next
    case (Cons y ys)
    then have "\<not> isWhiteSpace y"
      using hd_dropWhile[of isWhiteSpace p] by simp
    with all Cons show ?thesis by simp
  qed
  then show "\<forall>c\<in>set p. isWhiteSpace c"
    by (simp add: dropWhile_eq_Nil_conv)
next
  assume "\<forall>c\<in>set p. isWhiteSpace c"
  then have "dropWhile isWhiteSpace p = []"
    by (simp add: dropWhile_eq_Nil_conv)
  then show "trim p = []"
    unfolding trim_def by (simp only: rev.simps dropWhile.simps)
qed

section \<open>Generation\<close>

text \<open>
  C4. A prompt that is empty or blank (\<open>trim\<close> leaves nothing of it, that is, by
  \<open>trim_blank_iff\<close>, all its code units are white space) makes \<open>generate\<close> on an
  initialised bridge throw \<open>Prompt cannot be empty\<close>. The state it returns is the state
  it was given, history included: the engine is not called and nothing else happens,
  whatever \<open>imagePath\<close> is.
\<close>

theorem generate_blank_prompt:
  assumes "isInitialized s" and "trim prompt = []"
  shows "generate e prompt imagePath s = (Inl (JsError (lit ''Prompt cannot be empty'')), s)"
  using assms by (simp add: generate_def)

theorem generate_blank_prompt_witness:
  "isInitialized (ready Map.empty (lit ''/m''))
   \<and> trim [32, 9, 8195] = []
   \<and> generate device [32, 9, 8195] (Some (lit ''/a.png'')) (ready Map.empty (lit ''/m''))
       = (Inl (JsError (lit ''Prompt cannot be empty'')), ready Map.empty (lit ''/m''))"
proof -
  have live: "isInitialized (ready Map.empty (lit ''/m''))"
    by (simp add: ready_def fresh_def)
  have blank: "trim [32, 9, 8195] = []"
    by (simp add: trim_def isWhiteSpace_def)
  from live blank generate_blank_prompt [OF live blank] show ?thesis
    by simp
qed

text \<open>
  C5 (the code does not do this). With an engine loaded and an image that exists and
  decodes, a session whose \<open>generateResponse\<close> throws makes \<open>generateWithImage\<close> reject with
  \<open>GENERATE_ERROR\<close>: the session is closed by \<open>use\<close>, but the history of the call ends
  without \<open>Bitmap_recycle\<close>, so the decoded bitmap is not released on this exit. On
  the same input with an engine that answers, \<open>bitmap.recycle()\<close> is the last call.
\<close>

theorem generateWithImage_failure_keeps_bitmap:
  "GemmaModule_generateWithImage
       (device\<lparr>session_generateResponse_result := (\<lambda>p. Inl (lit ''out of memory''))\<rparr>)
       (lit ''describe'') (lit ''/a.png'')
       (ready [lit ''/a.png'' \<mapsto> File 10] (lit ''/m''))
     = (Inl (lit ''GENERATE_ERROR'', lit ''out of memory''),
        (ready [lit ''/a.png'' \<mapsto> File 10] (lit ''/m''))
          \<lparr>trace := [BitmapFactory_decodeFile (lit ''/a.png''), Session_createFromOptions,
                     Session_addQueryChunk (lit ''describe''), Session_addImage,
                     Session_generateResponse, Session_close,
                     AndroidLog ''Vision generation failed'']\<rparr>)
   \<and> trace (snd (GemmaModule_generateWithImage device (lit ''describe'') (lit ''/a.png'')
         (ready [lit ''/a.png'' \<mapsto> File 10] (lit ''/m''))))
     = [BitmapFactory_decodeFile (lit ''/a.png''), Session_createFromOptions,
        Session_addQueryChunk (lit ''describe''), Session_addImage,
        Session_generateResponse, Session_close, Bitmap_recycle]"
  by (simp add: GemmaModule_generateWithImage_def session_use_def ready_def fresh_def device_def
      emit_def)

section \<open>Activation and deactivation\<close>

text \<open>
  C3. When nothing exists at \<open>path\<close>, or a file of zero bytes does, \<open>GemmaModule.loadModel\<close>
  rejects with \<open>LOAD_ERROR\<close> and the message \<open>Model file not found at\<close> or \<open>Model file is
  empty\<close>, and returns the state it was given: \<open>LlmInference.createFromOptions\<close> is not
  called. \<open>GemmaInference.initialize\<close> throws \<open>Failed to initialize Gemma model:\<close> followed by
  that message (or by the message of the existence probe, when the probe itself throws),
  leaves the bridge not initialised and the engine field as it was, and adds no engine
  call to the history.
\<close>

theorem activate_invalid_artifact:
  assumes "fs s path = None \<or> fs s path = Some (File 0)"
  shows "GemmaModule_loadModel e path s =
           (Inl (lit ''LOAD_ERROR'',
                 (if fs s path = None then lit ''Model file not found at: ''
                  else lit ''Model file is empty: '') @ path), s)
         \<and> fst (initialize e path s) =
             Inl (JsError (lit ''Failed to initialize Gemma model: ''
                    @ (case exists_rejects e path of
                         Some t \<Rightarrow> message_of t
                       | None \<Rightarrow> (if fs s path = None then lit ''Model file not found at: ''
                                   else lit ''Model file is empty: '') @ path)))
         \<and> \<not> isInitialized (snd (initialize e path s))
         \<and> model (snd (initialize e path s)) = model s
         \<and> filter is_engine_call (trace (snd (initialize e path s)))
             = filter is_engine_call (trace s)"
  using assms
  by (auto simp: GemmaModule_loadModel_def initialize_def initialize_catch_def file_length_def
      await_def message_of_def Let_def split: option.split)

theorem activate_invalid_artifact_witness:
  "fs (fresh [lit ''/m'' \<mapsto> File 0]) (lit ''/m'') = Some (File 0)
   \<and> fst (initialize device (lit ''/m'') (fresh [lit ''/m'' \<mapsto> File 0]))
       = Inl (JsError (lit ''Failed to initialize Gemma model: Model file is empty: /m''))
   \<and> filter is_engine_call
         (trace (snd (initialize device (lit ''/m'') (fresh [lit ''/m'' \<mapsto> File 0])))) = []"
proof -
  have zero: "fs (fresh [lit ''/m'' \<mapsto> File 0]) (lit ''/m'') = None
      \<or> fs (fresh [lit ''/m'' \<mapsto> File 0]) (lit ''/m'') = Some (File 0)"
    by (simp add: fresh_def)
  have quiet: "exists_rejects device (lit ''/m'') = None"
    by (simp add: device_def)
  from activate_invalid_artifact [OF zero, of device] quiet show ?thesis
    by (simp add: fresh_def lit_def)
qed

text \<open>
  C9. \<open>unload\<close> on a bridge that is not initialised (never activated, or already
  deactivated) returns normally and changes nothing but the console, where it writes
  \<open>Model was not loaded\<close>; \<open>GemmaModule.unloadModel\<close> with no engine loaded resolves and
  leaves the state as it was. Calling \<open>unload\<close> twice in a row gives what one call gives:
  a first call that throws ends the sequence, and after a first call that returns the
  second call is that no-op.
\<close>

theorem unload_idempotent:
  "unload_twice e s =
     (case unload e s of
        (Inl t, s1) \<Rightarrow> (Inl t, s1)
      | (Inr v, s1) \<Rightarrow> (Inr (), emit (Console ''Model was not loaded'') s1))
   \<and> (\<not> isInitialized s \<longrightarrow> unload e s = (Inr (), emit (Console ''Model was not loaded'') s))
   \<and> (model s = None \<longrightarrow> GemmaModule_unloadModel e s = (Inr (lit ''Model unloaded''), s))"
  by (auto simp: unload_twice_def unload_def GemmaModule_unloadModel_def await_def Let_def
      split: option.split sum.split prod.split)

theorem unload_idempotent_witness:
  "unload device (ready Map.empty (lit ''/m''))
     = (Inr (), (fresh Map.empty)
                  \<lparr>trace := [LlmInference_close, Console ''Model unloaded successfully''],
                    modelPath := lit ''/m'', modelReady := True\<rparr>)
   \<and> unload_twice device (ready Map.empty (lit ''/m''))
     = (Inr (), (fresh Map.empty)
                  \<lparr>trace := [LlmInference_close, Console ''Model unloaded successfully'',
                              Console ''Model was not loaded''],
                    modelPath := lit ''/m'', modelReady := True\<rparr>)
   \<and> unload device (fresh Map.empty)
     = (Inr (), emit (Console ''Model was not loaded'') (fresh Map.empty))
   \<and> GemmaModule_unloadModel device (fresh Map.empty)
     = (Inr (lit ''Model unloaded''), fresh Map.empty)"
proof -
  have one: "unload device (ready Map.empty (lit ''/m''))
     = (Inr (), (fresh Map.empty)
                  \<lparr>trace := [LlmInference_close, Console ''Model unloaded successfully''],
                    modelPath := lit ''/m'', modelReady := True\<rparr>)"
    by (simp add: unload_def GemmaModule_unloadModel_def await_def ready_def fresh_def device_def
        emit_def)
  have dead: "\<not> isInitialized (fresh Map.empty)" "model (fresh Map.empty) = None"
    by (simp_all add: fresh_def)
  from unload_idempotent [of device "ready Map.empty (lit ''/m'')"]
    unload_idempotent [of device "fresh Map.empty"] one dead
  show ?thesis
    by (simp add: emit_def fresh_def)
qed

section \<open>Acquisition\<close>

text \<open>
  C2 (as the code has it). The progress callback computes \<open>(bytesWritten / contentLength)
  * 100\<close> in double arithmetic, with no test of the divisor. For \<open>0 \<le> bytesWritten \<le>
  contentLength\<close> and \<open>contentLength > 0\<close> the value is a percentage between 0 and 100. For
  a \<open>contentLength\<close> of 0 it is NaN when \<open>bytesWritten\<close> is 0 and an infinity otherwise.
  For a negative \<open>contentLength\<close> above \<open>-2^53\<close>, such as -1, and a positive
  \<open>bytesWritten\<close> it is negative. The last two are no percentages.
\<close>

theorem progress_unguarded:
  "downloadProgress (progress (x, y) s) = js_mul (js_div x y) (Num 100)
   \<and> (0 < cl \<and> 0 \<le> bw \<and> bw \<le> cl \<longrightarrow>
        is_percent (downloadProgress (progress (Num (of_int bw), Num (of_int cl)) s)))
   \<and> downloadProgress (progress (Num (of_int bw), Num 0) s)
       = (if bw = 0 then NaN else if 0 < bw then Infinity else NegInfinity)
   \<and> \<not> is_percent (downloadProgress (progress (Num (of_int bw), Num 0) s))
   \<and> (0 < bw \<and> cl < 0 \<and> - (2 ^ 53) < cl \<longrightarrow>
        \<not> is_percent (downloadProgress (progress (Num (of_int bw), Num (of_int cl)) s)))"
  using percent_in_range [of cl bw] percent_negative [of bw cl]
  by (simp add: progress_def is_percent_def del: js_div.simps js_mul.simps) (simp add: is_percent_def)

theorem progress_unguarded_witness:
  "downloadProgress (progress (Num 57, Num 100) (fresh Map.empty))
     = Num (8022036836253695 / 140737488355328)
   \<and> is_percent (downloadProgress (progress (Num 57, Num 100) (fresh Map.empty)))
   \<and> downloadProgress (progress (Num 250, Num 1000) (fresh Map.empty)) = Num 25
   \<and> downloadProgress (progress (Num 4096, Num (- 1)) (fresh Map.empty)) = Num (- 409600)
   \<and> \<not> is_percent (downloadProgress (progress (Num 4096, Num (- 1)) (fresh Map.empty)))"
proof -
  have v: "downloadProgress (progress (Num 57, Num 100) (fresh Map.empty))
      = Num (8022036836253695 / 140737488355328)"
    "downloadProgress (progress (Num 250, Num 1000) (fresh Map.empty)) = Num 25"
    "downloadProgress (progress (Num 4096, Num (- 1)) (fresh Map.empty)) = Num (- 409600)"
    by (simp_all add: progress_def round_double_def round_pos_def exponent_of_def clog2_def
        ilog2.simps pow2_def round_half_even_def js_neg_def Let_def)
  from progress_unguarded [of "Num 57" "Num 100" "fresh Map.empty" 100 57]
    progress_unguarded [of "Num 57" "Num 100" "fresh Map.empty" "- 1" 4096] v
  show ?thesis by simp
qed

text \<open>
  C2 as stated fails at a \<open>contentLength\<close> of 0: with no byte written the percentage is
  NaN, with 4096 bytes written it is Infinity.
\<close>

theorem progress_zero_length_counterexample:
  "downloadProgress (progress (Num 0, Num 0) (fresh Map.empty)) = NaN
   \<and> downloadProgress (progress (Num 4096, Num 0) (fresh Map.empty)) = Infinity
   \<and> \<not> is_percent (downloadProgress (progress (Num 0, Num 0) (fresh Map.empty)))
   \<and> \<not> is_percent (downloadProgress (progress (Num 4096, Num 0) (fresh Map.empty)))"
  by (simp add: progress_def is_percent_def)

text \<open>
  C10. When \<open>RNFS.exists\<close> rejects for the model path, \<open>checkModelExists\<close> logs the error and
  returns \<open>false\<close>; \<open>initModel\<close> then takes the branch of a missing model and enters
  \<open>downloadModel\<close>, whose first effects (\<open>setDownloading(true)\<close>, \<open>setDownloadError(null)\<close>,
  the probe of the models directory) follow in the history. No error is reported for
  the failed probe.
\<close>

theorem checkModelExists_rejected_probe:
  assumes "exists_rejects e (MODEL_PATH e) = Some t"
  shows "checkModelExists e s
           = (False, emit (Console ''Error checking model:'') (emit (RNFS_exists (MODEL_PATH e)) s))
         \<and> (\<exists>X. trace (initModel_inline e s)
                = trace s @ [Console ''Initializing model...'', RNFS_exists (MODEL_PATH e),
                             Console ''Error checking model:'',
                             Console ''Model not found, starting download...'',
                             SetDownloading True, SetDownloadError None,
                             RNFS_exists (MODELS_PATH e)] @ X)"
proof
  show "checkModelExists e s
           = (False, emit (Console ''Error checking model:'') (emit (RNFS_exists (MODEL_PATH e)) s))"
    using assms by (simp add: checkModelExists_def Let_def)
next
  let ?sd = "emit (Console ''Model not found, starting download...'')
               (emit (Console ''Error checking model:'')
                  (emit (RNFS_exists (MODEL_PATH e)) (emit (Console ''Initializing model...'') s)))"
  obtain X where X: "trace (snd (downloadModel e ?sd))
      = trace ?sd @ [SetDownloading True, SetDownloadError None, RNFS_exists (MODELS_PATH e)] @ X"
    using downloadModel_trace by blast
  let ?sa = "emit (Console ''Loading model into inference engine...'') (snd (downloadModel e ?sd))"
  obtain Z where Z: "trace (snd (initialize e (MODEL_PATH e) ?sa)) = trace ?sa @ Z"
    using initialize_trace by blast
  show "\<exists>X. trace (initModel_inline e s)
                = trace s @ [Console ''Initializing model...'', RNFS_exists (MODEL_PATH e),
                             Console ''Error checking model:'',
                             Console ''Model not found, starting download...'',
                             SetDownloading True, SetDownloadError None,
                             RNFS_exists (MODELS_PATH e)] @ X"
    apply (rule exI[where x = "drop (length (trace s) + 7) (trace (initModel_inline e s))"])
    using assms X Z
    apply (cases "downloadModel e ?sd"; cases "initialize e (MODEL_PATH e) ?sa")
    apply (simp add: initModel_inline_def initModel_inline_try_def checkModelExists_def Let_def
        setModelReady_def setDownloadError_def MODEL_PATH_nonempty split: sum.split)
    done
qed

theorem checkModelExists_rejected_probe_witness:
  "checkModelExists (device\<lparr>exists_rejects := (\<lambda>p. Some (JsError (lit ''EACCES'')))\<rparr>)
       (fresh Map.empty)
     = (False, (fresh Map.empty)
                 \<lparr>trace := [RNFS_exists (lit ''/data/models/gemma3n.litertlm''),
                             Console ''Error checking model:'']\<rparr>)
   \<and> take 7 (trace (initModel_inline
                (device\<lparr>exists_rejects := (\<lambda>p. Some (JsError (lit ''EACCES'')))\<rparr>)
                (fresh Map.empty)))
     = [Console ''Initializing model...'', RNFS_exists (lit ''/data/models/gemma3n.litertlm''),
        Console ''Error checking model:'', Console ''Model not found, starting download...'',
        SetDownloading True, SetDownloadError None, RNFS_exists (lit ''/data/models'')]"
proof -
  let ?e = "device\<lparr>exists_rejects := (\<lambda>p. Some (JsError (lit ''EACCES'')))\<rparr>"
  have rejects: "exists_rejects ?e (MODEL_PATH ?e) = Some (JsError (lit ''EACCES''))"
    by simp
  have paths: "MODEL_PATH ?e = lit ''/data/models/gemma3n.litertlm''"
      "MODELS_PATH ?e = lit ''/data/models''"
    by (simp_all add: MODEL_PATH_def MODELS_PATH_def MODEL_NAME_def device_def lit_def)
  from checkModelExists_rejected_probe [OF rejects, of "fresh Map.empty"] paths
  show ?thesis
    by (auto simp: emit_def fresh_def)
qed

text \<open>
  C1 (as the code has it). \<open>downloadModel\<close> hands the model path itself to
  \<open>RNFS.downloadFile\<close> and removes nothing afterwards. When the directory step succeeds and
  the transfer leaves \<open>len\<close> bytes at the model path but does not settle with status 200
  (it rejects, or answers another status), \<open>downloadModel\<close> returns \<open>false\<close> with
  \<open>downloadError\<close> set and \<open>downloading\<close> cleared, the file of \<open>len\<close> bytes stays at the
  model path, and \<open>checkModelExists\<close> on the state it leaves returns \<open>true\<close>.
\<close>

theorem downloadModel_leaves_partial_file:
  assumes "exists_rejects e (MODELS_PATH e) = None"
      and "mkdir_rejects e (MODELS_PATH e) = None"
      and "tr_left (downloadFile e MODEL_URL (MODEL_PATH e)) = Some len"
      and "tr_result (downloadFile e MODEL_URL (MODEL_PATH e)) \<noteq> Inr 200"
      and "exists_rejects e (MODEL_PATH e) = None"
  shows "\<not> fst (downloadModel e s)
       \<and> downloadError (snd (downloadModel e s)) \<noteq> None
       \<and> \<not> downloading (snd (downloadModel e s))
       \<and> fs (snd (downloadModel e s)) (MODEL_PATH e) = Some (File len)
       \<and> fst (checkModelExists e (snd (downloadModel e s)))"
proof -
  let ?s0 = "setDownloadError None ((setDownloading True s)\<lparr>downloadProgress := Num 0\<rparr>)"
  obtain Y f where Y: "snd (ensure_directory e ?s0)
       = ?s0\<lparr>trace := trace ?s0 @ RNFS_exists (MODELS_PATH e) # Y, fs := f\<rparr>"
    using ensure_directory_frame by blast
  have dir: "fst (ensure_directory e ?s0) = Inr ()"
    using assms(1,2) by (simp add: ensure_directory_result)
  let ?s3 = "emit (Console ''Starting model download...'') (snd (ensure_directory e ?s0))"
  obtain X q where X: "snd (RNFS_downloadFile_run e MODEL_URL (MODEL_PATH e) ?s3)
       = ?s3\<lparr>trace := trace ?s3 @ RNFS_downloadFile MODEL_URL (MODEL_PATH e) # X, downloadProgress := q,
           fs := (case tr_left (downloadFile e MODEL_URL (MODEL_PATH e)) of
                    None \<Rightarrow> fs ?s3
                  | Some len \<Rightarrow> (fs ?s3)((MODEL_PATH e) \<mapsto> File len))\<rparr>"
    using RNFS_downloadFile_run_frame by blast
  have res: "fst (RNFS_downloadFile_run e MODEL_URL (MODEL_PATH e) ?s3)
      = tr_result (downloadFile e MODEL_URL (MODEL_PATH e))"
    by (rule RNFS_downloadFile_run_result)
  from assms(3-5) Y dir X res show ?thesis
    by (cases "ensure_directory e ?s0"; cases "RNFS_downloadFile_run e MODEL_URL (MODEL_PATH e) ?s3")
      (auto simp: downloadModel_def downloadModel_try_def checkModelExists_def Let_def
        setDownloading_def setDownloadError_def split: sum.split)
qed

theorem downloadModel_leaves_partial_file_witness:
  "tr_left (downloadFile interrupted_transfer MODEL_URL (MODEL_PATH interrupted_transfer)) = Some 500
   \<and> tr_result (downloadFile interrupted_transfer MODEL_URL (MODEL_PATH interrupted_transfer))
       = Inl (JsError (lit ''Network request failed''))
   \<and> \<not> fst (downloadModel interrupted_transfer (fresh Map.empty))
   \<and> fs (snd (downloadModel interrupted_transfer (fresh Map.empty)))
        (MODEL_PATH interrupted_transfer) = Some (File 500)
   \<and> fst (checkModelExists interrupted_transfer
            (snd (downloadModel interrupted_transfer (fresh Map.empty))))"
proof -
  have dir: "exists_rejects interrupted_transfer (MODELS_PATH interrupted_transfer) = None"
      "mkdir_rejects interrupted_transfer (MODELS_PATH interrupted_transfer) = None"
    by (simp_all add: interrupted_transfer_def device_def)
  have left: "tr_left (downloadFile interrupted_transfer MODEL_URL
                         (MODEL_PATH interrupted_transfer)) = Some 500"
    by (simp add: interrupted_transfer_def)
  have res: "tr_result (downloadFile interrupted_transfer MODEL_URL
                          (MODEL_PATH interrupted_transfer))
       = Inl (JsError (lit ''Network request failed''))"
    by (simp add: interrupted_transfer_def)
  then have failed: "tr_result (downloadFile interrupted_transfer MODEL_URL
                                  (MODEL_PATH interrupted_transfer)) \<noteq> Inr 200"
    by simp
  have probe: "exists_rejects interrupted_transfer (MODEL_PATH interrupted_transfer) = None"
    by (simp add: interrupted_transfer_def device_def)
  from downloadModel_leaves_partial_file [OF dir left failed probe, of "fresh Map.empty"] left res
  show ?thesis by simp
qed

text \<open>
  C1 as stated fails: a transfer cut after 500 of 1000 bytes makes \<open>downloadModel\<close> return
  \<open>false\<close>, and the 500 bytes are at the model path, where the probe reports a model.
\<close>

theorem downloadModel_interrupted_counterexample:
  "\<not> fst (downloadModel interrupted_transfer (fresh Map.empty))
   \<and> fs (snd (downloadModel interrupted_transfer (fresh Map.empty)))
        (lit ''/data/models/gemma3n.litertlm'') = Some (File 500)
   \<and> fst (checkModelExists interrupted_transfer
            (snd (downloadModel interrupted_transfer (fresh Map.empty))))"
  by (simp add: downloadModel_def downloadModel_try_def ensure_directory_def RNFS_mkdir_run_def
      RNFS_downloadFile_run_def progress_def checkModelExists_def setDownloading_def
      setDownloadError_def MODEL_PATH_def MODELS_PATH_def MODEL_NAME_def MODEL_URL_def
      interrupted_transfer_def device_def fresh_def emit_def lit_def Let_def)

section \<open>The session\<close>

text \<open>
  C7 (as the code has it). When \<open>checkModelExists\<close> returns \<open>true\<close>, the events \<open>initModel\<close>
  adds to the history hold no download call (\<open>handleDownload\<close> is not entered), and the
  states they show are Uninitialized, CheckingArtifact, Activating and then Ready when
  \<open>GemmaInference.initialize\<close> returns, or Failed with the text \<open>handleNetworkError\<close> makes
  of the error when it throws.
\<close>

theorem initModel_artifact_present:
  assumes "fst (checkModelExists e (emit (Console ''Initializing model...'') s))"
  shows "filter is_download_call (drop (length (trace s)) (trace (initModel e s))) = []
       \<and> state_sequence (drop (length (trace s)) (trace (initModel e s)))
         = [Uninitialized, CheckingArtifact, Activating]
           @ (case fst (initialize e (MODEL_PATH e)
                          (emit (Console ''Loading model into inference engine...'')
                             (snd (checkModelExists e (emit (Console ''Initializing model...'') s))))) of
                Inr v \<Rightarrow> [Ready]
              | Inl t \<Rightarrow> [Failed (handleNetworkError e t)])"
proof -
  let ?s1 = "snd (checkModelExists e (emit (Console ''Initializing model...'') s))"
  let ?sa = "emit (Console ''Loading model into inference engine...'') ?s1"
  have s1: "trace ?s1 = trace s @ [Console ''Initializing model...'', RNFS_exists (MODEL_PATH e),
                                   Console ''Model exists at'']"
    using assms by (simp add: checkModelExists_def Let_def split: option.split_asm)
  obtain Z where Z: "trace (snd (initialize e (MODEL_PATH e) ?sa)) = trace ?sa @ Z" "list_all silent Z"
    using initialize_trace by blast
  from Z(2) have quiet: "concat (map readiness_of Z) = []" "filter is_download_call Z = []"
    using silent_list by blast+
  from assms s1 Z(1) quiet show ?thesis
    by (cases "checkModelExists e (emit (Console ''Initializing model...'') s)";
        cases "initialize e (MODEL_PATH e) ?sa")
      (simp add: initModel_def initModel_try_def Let_def setModelReady_def setDownloadError_def
        MODEL_PATH_nonempty state_sequence_def split: sum.split)
qed

theorem initModel_artifact_present_witness:
  "fst (checkModelExists device
          (emit (Console ''Initializing model...'')
             (fresh [lit ''/data/models/gemma3n.litertlm'' \<mapsto> File 1000])))
   \<and> filter is_download_call
        (trace (initModel device (fresh [lit ''/data/models/gemma3n.litertlm'' \<mapsto> File 1000])))
       = []
   \<and> state_sequence
        (trace (initModel device (fresh [lit ''/data/models/gemma3n.litertlm'' \<mapsto> File 1000])))
       = [Uninitialized, CheckingArtifact, Activating, Ready]"
proof -
  let ?s = "fresh [lit ''/data/models/gemma3n.litertlm'' \<mapsto> File 1000]"
  have present: "fst (checkModelExists device (emit (Console ''Initializing model...'') ?s))"
    by (simp add: checkModelExists_def MODEL_PATH_def MODELS_PATH_def MODEL_NAME_def device_def
        fresh_def emit_def lit_def Let_def)
  have act: "fst (initialize device (MODEL_PATH device)
                    (emit (Console ''Loading model into inference engine...'')
                       (snd (checkModelExists device (emit (Console ''Initializing model...'') ?s)))))
       = Inr ()"
    by (simp add: initialize_def initialize_catch_def GemmaModule_loadModel_def file_length_def
        await_def checkModelExists_def MODEL_PATH_def MODELS_PATH_def MODEL_NAME_def device_def
        fresh_def emit_def lit_def Let_def)
  have start: "trace ?s = []"
    by (simp add: fresh_def)
  from initModel_artifact_present [OF present] present act start
  show ?thesis by simp
qed

text \<open>
  C7 as stated fails when the probe finds a file the engine cannot load: with a model
  file of zero bytes the probe reports a model, no download starts, and the states end
  in Failed, not in Ready.
\<close>

theorem initModel_empty_artifact_counterexample:
  "fst (checkModelExists device
          (emit (Console ''Initializing model...'')
             (fresh [lit ''/data/models/gemma3n.litertlm'' \<mapsto> File 0])))
   \<and> state_sequence
        (trace (initModel device (fresh [lit ''/data/models/gemma3n.litertlm'' \<mapsto> File 0])))
     = [Uninitialized, CheckingArtifact, Activating,
        Failed (lit ''Failed to initialize Gemma model: Model file is empty: /data/models/gemma3n.litertlm'')]
   \<and> state_sequence
        (trace (initModel device (fresh [lit ''/data/models/gemma3n.litertlm'' \<mapsto> File 0])))
     \<noteq> [Uninitialized, CheckingArtifact, Activating, Ready]"
  by (simp add: initModel_def initModel_try_def checkModelExists_def initialize_def
      initialize_catch_def GemmaModule_loadModel_def file_length_def await_def message_of_def
      setModelReady_def setDownloadError_def state_sequence_def MODEL_PATH_def MODELS_PATH_def
      MODEL_NAME_def device_def fresh_def emit_def lit_def Let_def)

text \<open>
  C8. In a ready session, a \<open>sendMessage\<close> that passes its guards and whose
  \<open>GemmaInference.generate\<close> throws leaves \<open>modelReady\<close> true, the messages as they were
  with the user message appended, the bridge, the engine field, \<open>downloading\<close> and
  \<open>downloadError\<close> as they were and \<open>loading\<close> cleared; the events it adds show no
  readiness state.
\<close>

theorem sendMessage_generation_failure:
  assumes "modelReady s"
      and "\<not> (trim (input s) = [] \<and> \<not> truthy (selectedImage s))"
      and "fst (generate e (input s) (selectedImage s) (sendMessage_pending e now1 s)) = Inl t"
  shows "modelReady (sendMessage e now1 now2 s)
       \<and> messages (sendMessage e now1 now2 s) = messages s @ [userMsg now1 s]
       \<and> isInitialized (sendMessage e now1 now2 s) = isInitialized s
       \<and> model (sendMessage e now1 now2 s) = model s
       \<and> downloading (sendMessage e now1 now2 s) = downloading s
       \<and> downloadError (sendMessage e now1 now2 s) = downloadError s
       \<and> \<not> loading (sendMessage e now1 now2 s)
       \<and> list_all silent (drop (length (trace s)) (trace (sendMessage e now1 now2 s)))"
proof -
  let ?p = "sendMessage_pending e now1 s"
  obtain X where X: "snd (generate e (input s) (selectedImage s) ?p) = ?p\<lparr>trace := trace ?p @ X\<rparr>"
      "list_all silent X"
    using generate_frame by blast
  from assms X show ?thesis
    by (cases "generate e (input s) (selectedImage s) ?p")
      (simp add: sendMessage_def sendMessage_pending_def saveMessages_def Let_def emit_def)
qed

theorem sendMessage_generation_failure_witness:
  "modelReady ((ready Map.empty (lit ''/m''))\<lparr>input := lit ''hello''\<rparr>)
   \<and> fst (generate failing_engine (lit ''hello'') None
            (sendMessage_pending failing_engine 1000
               ((ready Map.empty (lit ''/m''))\<lparr>input := lit ''hello''\<rparr>)))
       = Inl (JsError (lit ''Generation failed: engine failure''))
   \<and> modelReady (sendMessage failing_engine 1000 2000
                    ((ready Map.empty (lit ''/m''))\<lparr>input := lit ''hello''\<rparr>))
   \<and> messages (sendMessage failing_engine 1000 2000
                  ((ready Map.empty (lit ''/m''))\<lparr>input := lit ''hello''\<rparr>))
       = [\<lparr>msg_id = lit ''1000'', msg_text = lit ''hello'', msg_sender = User, msg_image = None\<rparr>]"
proof -
  let ?s = "(ready Map.empty (lit ''/m''))\<lparr>input := lit ''hello''\<rparr>"
  have rdy: "modelReady ?s"
    by (simp add: ready_def fresh_def)
  have typed: "\<not> (trim (input ?s) = [] \<and> \<not> truthy (selectedImage ?s))"
    by (simp add: ready_def fresh_def trim_def isWhiteSpace_def lit_def)
  have fails: "fst (generate failing_engine (input ?s) (selectedImage ?s)
                  (sendMessage_pending failing_engine 1000 ?s))
       = Inl (JsError (lit ''Generation failed: engine failure''))"
    by (simp add: generate_def generate_try_def trimmed_truthy_def GemmaModule_generate_def
        await_def message_of_def sendMessage_pending_def saveMessages_def userMsg_def
        failing_engine_def ready_def fresh_def device_def emit_def Let_def trim_def
        isWhiteSpace_def lit_def)
  have inp: "input ?s = lit ''hello''" "selectedImage ?s = None" "messages ?s = []"
    by (simp_all add: ready_def fresh_def)
  from sendMessage_generation_failure [OF rdy typed fails, of 2000] rdy fails inp
  show ?thesis
    by (simp add: userMsg_def truthy_def toString_def digits.simps lit_def)
qed

section \<open>Message ids\<close>

text \<open>
  C6 (as the code has it). A user message gets the id \<open>Date.now().toString()\<close>, an answer
  \<open>(Date.now() + 1).toString()\<close>; nothing else makes ids differ. In a session of sends
  whose clock readings are spaced (every send reads the clock later than the number of
  the message before it, and no answer is stamped before its question), the numbers of
  the ids of the messages the session adds increase strictly in creation order, and the
  ids are distinct.
\<close>

theorem message_ids_spaced_clock:
  assumes "spaced b xs"
  shows "sorted_wrt (<) (map (numberOf \<circ> msg_id) (drop (length (messages s)) (messages (sends xs s))))
       \<and> distinct (map msg_id (drop (length (messages s)) (messages (sends xs s))))"
proof -
  obtain new where new: "messages (sends xs s) = messages s @ new"
      "sorted_wrt (<) (map (numberOf \<circ> msg_id) new)"
    using sends_ids [OF assms] by blast
  from new(2) have "distinct (map (numberOf \<circ> msg_id) new)"
    using strict_sorted_iff by blast
  then have "distinct (map numberOf (map msg_id new))"
    by simp
  then have "distinct (map msg_id new)"
    using distinct_map by blast
  with new show ?thesis by simp
qed

theorem message_ids_spaced_clock_witness:
  "spaced 4999 [send_at 5000 5800, send_at 5802 6500]
   \<and> map msg_id (messages (sends [send_at 5000 5800, send_at 5802 6500]
                              (ready Map.empty (lit ''/m''))))
       = [lit ''5000'', lit ''5801'', lit ''5802'', lit ''6501'']
   \<and> distinct (map msg_id (messages (sends [send_at 5000 5800, send_at 5802 6500]
                                         (ready Map.empty (lit ''/m'')))))"
proof -
  have sp: "spaced 4999 [send_at 5000 5800, send_at 5802 6500]"
    by (simp add: send_at_def)
  have ids: "map msg_id (messages (sends [send_at 5000 5800, send_at 5802 6500]
                              (ready Map.empty (lit ''/m''))))
       = [lit ''5000'', lit ''5801'', lit ''5802'', lit ''6501'']"
    by (simp add: send_at_def sendMessage_def sendMessage_pending_def saveMessages_def userMsg_def
        generate_def generate_try_def trimmed_truthy_def GemmaModule_generate_def await_def
        truthy_def trim_def isWhiteSpace_def toString_def digits.simps ready_def fresh_def
        device_def emit_def lit_def Let_def)
  have start: "messages (ready Map.empty (lit ''/m'')) = []"
    by (simp add: ready_def fresh_def)
  from message_ids_spaced_clock [OF sp, of "ready Map.empty (lit ''/m'')"] sp ids start
  show ?thesis by simp
qed

text \<open>
  C6 as stated fails on a clock that never runs backwards: an answer stamped at 5800
  gets the id 5801, and so does the next user message when it is sent at 5801.
\<close>

theorem message_ids_collide_counterexample:
  "map msg_id (messages (sends [send_at 5000 5800, send_at 5801 6500]
                           (ready Map.empty (lit ''/m''))))
     = [lit ''5000'', lit ''5801'', lit ''5801'', lit ''6501'']
   \<and> \<not> distinct (map msg_id (messages (sends [send_at 5000 5800, send_at 5801 6500]
                                           (ready Map.empty (lit ''/m'')))))"
proof -
  have ids: "map msg_id (messages (sends [send_at 5000 5800, send_at 5801 6500]
                           (ready Map.empty (lit ''/m''))))
     = [lit ''5000'', lit ''5801'', lit ''5801'', lit ''6501'']"
    by (simp add: send_at_def sendMessage_def sendMessage_pending_def saveMessages_def userMsg_def
        generate_def generate_try_def trimmed_truthy_def GemmaModule_generate_def await_def
        truthy_def trim_def isWhiteSpace_def toString_def digits.simps ready_def fresh_def
        device_def emit_def lit_def Let_def)
  then show ?thesis by simp
qed

end
